theory Spec2Isabelle
  imports Complex_Main
begin

section \<open>JavaScript numbers\<close>

text \<open>
  The dashboard computes on JavaScript \<open>number\<close> values. Finite values are modelled as
  exact rationals (no rounding and no overflow), extended by the three special values that
  division by zero brings into play: \<open>Infinity\<close>, \<open>-Infinity\<close> and \<open>NaN\<close>. The sign of
  zero is not tracked: every zero is \<open>+0\<close>.
\<close>

datatype jsnum = Fin rat | PInf | NInf | NaN

text \<open>\<open>a + b\<close>\<close>

fun jadd :: "jsnum \<Rightarrow> jsnum \<Rightarrow> jsnum" where
  "jadd NaN b = NaN"
| "jadd a NaN = NaN"
| "jadd PInf NInf = NaN"
| "jadd NInf PInf = NaN"
| "jadd PInf b = PInf"
| "jadd a PInf = PInf"
| "jadd NInf b = NInf"
| "jadd a NInf = NInf"
| "jadd (Fin a) (Fin b) = Fin (a + b)"

text \<open>\<open>a * b\<close>\<close>

fun jmul :: "jsnum \<Rightarrow> jsnum \<Rightarrow> jsnum" where
  "jmul NaN b = NaN"
| "jmul a NaN = NaN"
| "jmul PInf PInf = PInf"
| "jmul PInf NInf = NInf"
| "jmul NInf PInf = NInf"
| "jmul NInf NInf = PInf"
| "jmul PInf (Fin b) = (if b = 0 then NaN else if 0 < b then PInf else NInf)"
| "jmul NInf (Fin b) = (if b = 0 then NaN else if 0 < b then NInf else PInf)"
| "jmul (Fin a) PInf = (if a = 0 then NaN else if 0 < a then PInf else NInf)"
| "jmul (Fin a) NInf = (if a = 0 then NaN else if 0 < a then NInf else PInf)"
| "jmul (Fin a) (Fin b) = Fin (a * b)"

text \<open>\<open>a / b\<close>: a finite value over zero is infinite, zero over zero is \<open>NaN\<close>.\<close>

fun jdiv :: "jsnum \<Rightarrow> jsnum \<Rightarrow> jsnum" where
  "jdiv NaN b = NaN"
| "jdiv a NaN = NaN"
| "jdiv PInf PInf = NaN"
| "jdiv PInf NInf = NaN"
| "jdiv NInf PInf = NaN"
| "jdiv NInf NInf = NaN"
| "jdiv PInf (Fin b) = (if 0 \<le> b then PInf else NInf)"
| "jdiv NInf (Fin b) = (if 0 \<le> b then NInf else PInf)"
| "jdiv (Fin a) PInf = Fin 0"
| "jdiv (Fin a) NInf = Fin 0"
| "jdiv (Fin a) (Fin b) =
     (if b \<noteq> 0 then Fin (a / b)
      else if a = 0 then NaN
      else if 0 < a then PInf else NInf)"

text \<open>\<open>a > b\<close>\<close>

fun jgt :: "jsnum \<Rightarrow> jsnum \<Rightarrow> bool" where
  "jgt NaN b = False"
| "jgt a NaN = False"
| "jgt NInf b = False"
| "jgt a PInf = False"
| "jgt PInf b = True"
| "jgt a NInf = True"
| "jgt (Fin a) (Fin b) = (b < a)"

text \<open>\<open>a <= b\<close> and \<open>a >= b\<close>\<close>

fun jle :: "jsnum \<Rightarrow> jsnum \<Rightarrow> bool" where
  "jle NaN b = False"
| "jle a NaN = False"
| "jle NInf b = True"
| "jle a PInf = True"
| "jle PInf b = False"
| "jle a NInf = False"
| "jle (Fin a) (Fin b) = (a \<le> b)"

definition jge :: "jsnum \<Rightarrow> jsnum \<Rightarrow> bool" where
  "jge a b = jle b a"

fun isNaN :: "jsnum \<Rightarrow> bool" where
  "isNaN NaN = True"
| "isNaN a = False"

text \<open>Truthiness of a number: \<open>0\<close> and \<open>NaN\<close> are falsy. \<open>a || b\<close> on numbers.\<close>

definition truthy :: "jsnum \<Rightarrow> bool" where
  "truthy a = (a \<noteq> Fin 0 \<and> a \<noteq> NaN)"

definition jor :: "jsnum \<Rightarrow> jsnum \<Rightarrow> jsnum" where
  "jor a b = (if truthy a then a else b)"

text \<open>\<open>Math.max(...xs)\<close>: \<open>-Infinity\<close> on no arguments, \<open>NaN\<close> as soon as one is.\<close>

fun jmax :: "jsnum \<Rightarrow> jsnum \<Rightarrow> jsnum" where
  "jmax NaN b = NaN"
| "jmax a NaN = NaN"
| "jmax a b = (if jgt b a then b else a)"

definition Math_max :: "jsnum list \<Rightarrow> jsnum" where
  "Math_max xs = foldl jmax NInf xs"

fun isFinite :: "jsnum \<Rightarrow> bool" where
  "isFinite (Fin a) = True"
| "isFinite a = False"


section \<open>Equity model (src/types/database.ts)\<close>

text \<open>
  The interfaces of \<open>database.ts\<close>. A child row is declared in three layers, so that the
  types the gateway derives from it are records too: the fields a caller supplies
  (\<open>Omit<Founder, 'id' | 'scenario_id'>\<close>), these with the scenario they belong to (the
  row that is inserted), and the stored row with its \<open>id\<close>.
\<close>

record Scenario =
  id :: string
  user_id :: string
  name :: string
  created_at :: string
  updated_at :: string

record NewFounder =
  name :: string
  equity :: jsnum

record FounderInsert = NewFounder +
  scenario_id :: string

record Founder = FounderInsert +
  id :: string

record NewRound =
  round_name :: string
  investment :: jsnum
  valuation :: jsnum

record RoundInsert = NewRound +
  scenario_id :: string

record Round = RoundInsert +
  id :: string

record NewESOP =
  percentage :: jsnum

record ESOPInsert = NewESOP +
  scenario_id :: string

record ESOP = ESOPInsert +
  id :: string

record CreateScenarioRequest =
  name :: string
  founders :: "NewFounder list"
  rounds :: "NewRound list option"
  esop :: "NewESOP list option"

record ScenarioData =
  scenario :: Scenario
  founders :: "Founder list"
  rounds :: "Round list"
  esop :: "ESOP list"


section \<open>Dilution (AnalysisTab.tsx)\<close>

text \<open>
  The values the analysis view computes on every render, one field per \<open>const\<close> of the
  component, and one row per founder of the breakdown table. \<open>scenarioData\<close> may be
  \<open>null\<close>; every \<open>scenarioData?. ... || 0\<close> then yields \<open>0\<close>.
\<close>

record FounderRow =
  row_founder :: Founder
  currentEquity :: jsnum
  "value" :: jsnum

record Analysis =
  totalInvestment :: jsnum
  latestValuation :: jsnum
  founderEquity :: jsnum
  esopEquity :: jsnum
  investorEquity :: jsnum
  totalEquity :: jsnum
  dilutedFounderEquity :: jsnum
  dilutedEsopEquity :: jsnum
  dilutedInvestorEquity :: jsnum
  founderRows :: "FounderRow list"

text \<open>\<open>esop[0]?.percentage || 0\<close>\<close>

definition esop0_percentage :: "ESOP list \<Rightarrow> jsnum" where
  "esop0_percentage es = (case es of [] \<Rightarrow> Fin 0 | e # _ \<Rightarrow> jor (percentage e) (Fin 0))"

definition AnalysisTab :: "ScenarioData option \<Rightarrow> Analysis" where
  "AnalysisTab scenarioData =
    (let totalInvestment =
           (case scenarioData of None \<Rightarrow> Fin 0
            | Some d \<Rightarrow> jor (foldl (\<lambda>sum round. jadd sum (investment round)) (Fin 0) (rounds d)) (Fin 0));
         latestValuation =
           (case scenarioData of None \<Rightarrow> Fin 0
            | Some d \<Rightarrow> if length (rounds d) \<noteq> 0 then Math_max (map valuation (rounds d)) else Fin 0);
         founderEquity =
           (case scenarioData of None \<Rightarrow> Fin 0
            | Some d \<Rightarrow> jor (foldl (\<lambda>sum founder. jadd sum (equity founder)) (Fin 0) (founders d)) (Fin 0));
         esopEquity =
           (case scenarioData of None \<Rightarrow> Fin 0 | Some d \<Rightarrow> esop0_percentage (esop d));
         investorEquity =
           (case scenarioData of None \<Rightarrow> Fin 0
            | Some d \<Rightarrow>
                jor (foldl (\<lambda>total round.
                        let equity = jmul (jdiv (investment round) (valuation round)) (Fin 100)
                        in jadd total equity) (Fin 0) (rounds d)) (Fin 0));
         totalEquity = jadd (jadd founderEquity esopEquity) investorEquity;
         dilutedFounderEquity =
           (if jgt totalEquity (Fin 0) then jmul (jdiv founderEquity totalEquity) (Fin 100)
            else founderEquity);
         dilutedEsopEquity =
           (if jgt totalEquity (Fin 0) then jmul (jdiv esopEquity totalEquity) (Fin 100)
            else esopEquity);
         dilutedInvestorEquity =
           (if jgt totalEquity (Fin 0) then jmul (jdiv investorEquity totalEquity) (Fin 100)
            else investorEquity)
     in \<lparr> totalInvestment = totalInvestment,
          latestValuation = latestValuation,
          founderEquity = founderEquity,
          esopEquity = esopEquity,
          investorEquity = investorEquity,
          totalEquity = totalEquity,
          dilutedFounderEquity = dilutedFounderEquity,
          dilutedEsopEquity = dilutedEsopEquity,
          dilutedInvestorEquity = dilutedInvestorEquity,
          founderRows =
            (case scenarioData of None \<Rightarrow> []
             | Some d \<Rightarrow>
                 map (\<lambda>founder.
                        let currentEquity =
                              (if jgt totalEquity (Fin 0)
                               then jmul (jdiv (equity founder) totalEquity) (Fin 100)
                               else equity founder);
                            value = jmul (jdiv currentEquity (Fin 100)) latestValuation
                        in \<lparr> row_founder = founder, currentEquity = currentEquity, value = value \<rparr>)
                     (founders d)) \<rparr>)"


section \<open>Parsing numbers: \<open>parseFloat\<close>\<close>

text \<open>
  \<open>parseFloat\<close> of ECMAScript on strings of code units below 256: leading white space is
  dropped, then the longest prefix that is a \<open>StrDecimalLiteral\<close> (an optional sign, then
  \<open>Infinity\<close> or decimal digits with an optional fraction and an optional exponent) is
  read; \<open>NaN\<close> when there is no such prefix. The value is exact.
\<close>

definition isDigit :: "char \<Rightarrow> bool" where
  "isDigit c = (48 \<le> (of_char c :: int) \<and> (of_char c :: int) \<le> 57)"

definition digitVal :: "char \<Rightarrow> int" where
  "digitVal c = of_char c - 48"

definition digitsVal :: "string \<Rightarrow> int" where
  "digitsVal ds = foldl (\<lambda>acc c. 10 * acc + digitVal c) 0 ds"

definition isWhiteSpace :: "char \<Rightarrow> bool" where
  "isWhiteSpace c = ((of_char c :: int) \<in> {9, 10, 11, 12, 13, 32, 160})"

definition scale10 :: "rat \<Rightarrow> int \<Rightarrow> rat" where
  "scale10 q e = (if 0 \<le> e then q * 10 ^ nat e else q / 10 ^ nat (- e))"

text \<open>The exponent of an \<open>ExponentPart\<close> at the head of the string, \<open>0\<close> when there is none.\<close>

definition parseExponent :: "string \<Rightarrow> int" where
  "parseExponent r =
    (case r of
       [] \<Rightarrow> 0
     | c # r1 \<Rightarrow>
         if c = CHR ''e'' \<or> c = CHR ''E'' then
           (case r1 of
              [] \<Rightarrow> 0
            | s # r2 \<Rightarrow>
                if s = CHR ''+'' then digitsVal (takeWhile isDigit r2)
                else if s = CHR ''-'' then - digitsVal (takeWhile isDigit r2)
                else digitsVal (takeWhile isDigit r1))
         else 0)"

definition parseUnsigned :: "string \<Rightarrow> jsnum" where
  "parseUnsigned s =
    (if take 8 s = ''Infinity'' then PInf
     else
       let ip = takeWhile isDigit s; r1 = dropWhile isDigit s in
       (case r1 of
          [] \<Rightarrow> if ip = [] then NaN else Fin (of_int (digitsVal ip))
        | c # r2 \<Rightarrow>
            if c = CHR ''.'' then
              (let fp = takeWhile isDigit r2; r3 = dropWhile isDigit r2 in
               if ip = [] \<and> fp = [] then NaN
               else Fin (scale10 (of_int (digitsVal (ip @ fp)) / 10 ^ length fp)
                          (parseExponent r3)))
            else if ip = [] then NaN
            else Fin (scale10 (of_int (digitsVal ip)) (parseExponent r1))))"

fun jneg :: "jsnum \<Rightarrow> jsnum" where
  "jneg (Fin a) = Fin (- a)"
| "jneg PInf = NInf"
| "jneg NInf = PInf"
| "jneg NaN = NaN"

definition parseFloat :: "string \<Rightarrow> jsnum" where
  "parseFloat s =
    (let t = dropWhile isWhiteSpace s in
     case t of
       [] \<Rightarrow> NaN
     | c # r \<Rightarrow>
         if c = CHR ''+'' then parseUnsigned r
         else if c = CHR ''-'' then jneg (parseUnsigned r)
         else parseUnsigned t)"


section \<open>Exit modelling (the exit tab)\<close>

record FounderBreakdown =
  name :: string
  originalEquity :: jsnum
  currentEquity :: jsnum
  proceeds :: jsnum

record ExitResults =
  exitValuation :: jsnum
  exitType :: string
  founderProceeds :: jsnum
  esopProceeds :: jsnum
  investorProceeds :: jsnum
  investorReturn :: jsnum
  founderBreakdown :: "FounderBreakdown list"
  totalInvestment :: jsnum

text \<open>The state of the component: its three \<open>useState\<close> cells.\<close>

record ExitTab =
  exitValuation :: string
  exitType :: string
  exitResults :: "ExitResults option"

text \<open>
  \<open>calculateExit\<close> reads the scenario (a prop, possibly \<open>null\<close>) and the state, and either
  returns early, leaving the state as it is, or stores a new result.
\<close>

definition calculateExit :: "ScenarioData option \<Rightarrow> ExitTab \<Rightarrow> ExitTab" where
  "calculateExit scenarioData st =
    (case scenarioData of
       None \<Rightarrow> st
     | Some d \<Rightarrow>
         if exitValuation st = [] then st
         else
           let valuation = parseFloat (exitValuation st) in
           if isNaN valuation \<or> jle valuation (Fin 0) then st
           else
             let totalInvestment =
                   foldl (\<lambda>sum round. jadd sum (investment round)) (Fin 0) (rounds d);
                 founderEquity =
                   foldl (\<lambda>sum founder. jadd sum (equity founder)) (Fin 0) (founders d);
                 esopEquity = esop0_percentage (esop d);
                 investorEquity =
                   foldl (\<lambda>total round.
                            let equity = jmul (jdiv (investment round) (NewRound.valuation round)) (Fin 100)
                            in jadd total equity) (Fin 0) (rounds d);
                 totalEquity = jadd (jadd founderEquity esopEquity) investorEquity;
                 dilutedFounderEquity =
                   (if jgt totalEquity (Fin 0)
                    then jmul (jdiv founderEquity totalEquity) (Fin 100) else founderEquity);
                 dilutedEsopEquity =
                   (if jgt totalEquity (Fin 0)
                    then jmul (jdiv esopEquity totalEquity) (Fin 100) else esopEquity);
                 dilutedInvestorEquity =
                   (if jgt totalEquity (Fin 0)
                    then jmul (jdiv investorEquity totalEquity) (Fin 100) else investorEquity);
                 founderProceeds = jmul (jdiv dilutedFounderEquity (Fin 100)) valuation;
                 esopProceeds = jmul (jdiv dilutedEsopEquity (Fin 100)) valuation;
                 investorProceeds = jmul (jdiv dilutedInvestorEquity (Fin 100)) valuation;
                 investorReturn =
                   (if jgt totalInvestment (Fin 0) then jdiv investorProceeds totalInvestment
                    else Fin 0);
                 founderBreakdown =
                   map (\<lambda>founder.
                          let currentEquity =
                                (if jgt totalEquity (Fin 0)
                                 then jmul (jdiv (equity founder) totalEquity) (Fin 100)
                                 else equity founder);
                              proceeds = jmul (jdiv currentEquity (Fin 100)) valuation
                          in \<lparr> FounderBreakdown.name = NewFounder.name founder,
                               originalEquity = equity founder,
                               FounderBreakdown.currentEquity = currentEquity,
                               proceeds = proceeds \<rparr>)
                       (founders d)
             in st\<lparr> exitResults := Some
                    \<lparr> ExitResults.exitValuation = valuation,
                      ExitResults.exitType = exitType st,
                      founderProceeds = founderProceeds,
                      esopProceeds = esopProceeds,
                      investorProceeds = investorProceeds,
                      investorReturn = investorReturn,
                      founderBreakdown = founderBreakdown,
                      ExitResults.totalInvestment = totalInvestment \<rparr> \<rparr>)"


section \<open>A worked scenario\<close>

definition alice :: Founder where
  "alice = \<lparr> NewFounder.name = ''Alice'', equity = Fin 60,
             FounderInsert.scenario_id = ''s1'', Founder.id = ''f1'' \<rparr>"

definition bob :: Founder where
  "bob = \<lparr> NewFounder.name = ''Bob'', equity = Fin 40,
           FounderInsert.scenario_id = ''s1'', Founder.id = ''f2'' \<rparr>"

definition seed :: Round where
  "seed = \<lparr> round_name = ''Seed'', investment = Fin 1000000, valuation = Fin 5000000,
            RoundInsert.scenario_id = ''s1'', Round.id = ''r1'' \<rparr>"

definition pool :: ESOP where
  "pool = \<lparr> percentage = Fin 10, ESOPInsert.scenario_id = ''s1'', ESOP.id = ''e1'' \<rparr>"

definition acme :: Scenario where
  "acme = \<lparr> Scenario.id = ''s1'', user_id = ''u1'', Scenario.name = ''Acme'',
            created_at = ''2024-01-01'', updated_at = ''2024-01-01'' \<rparr>"

definition example :: ScenarioData where
  "example = \<lparr> scenario = acme, founders = [alice, bob], rounds = [seed], esop = [pool] \<rparr>"

definition exit_input :: ExitTab where
  "exit_input = \<lparr> exitValuation = ''10000000'', exitType = ''acquisition'',
                  exitResults = None \<rparr>"

text \<open>
  The locals of \<open>calculateExit\<close> that the properties below speak about, as functions of
  the scenario; \<open>calculateExit_results\<close> shows that they are the ones of the definition.
\<close>

definition exit_totalInvestment :: "ScenarioData \<Rightarrow> jsnum" where
  "exit_totalInvestment d = foldl (\<lambda>sum round. jadd sum (investment round)) (Fin 0) (rounds d)"

definition exit_founderEquity :: "ScenarioData \<Rightarrow> jsnum" where
  "exit_founderEquity d = foldl (\<lambda>sum founder. jadd sum (equity founder)) (Fin 0) (founders d)"

definition exit_investorEquity :: "ScenarioData \<Rightarrow> jsnum" where
  "exit_investorEquity d =
     foldl (\<lambda>total round.
              let equity = jmul (jdiv (investment round) (valuation round)) (Fin 100)
              in jadd total equity) (Fin 0) (rounds d)"

definition exit_totalEquity :: "ScenarioData \<Rightarrow> jsnum" where
  "exit_totalEquity d =
     jadd (jadd (exit_founderEquity d) (esop0_percentage (esop d))) (exit_investorEquity d)"

text \<open>\<open>totalEquity > 0 ? (x / totalEquity) * 100 : x\<close>\<close>

definition diluted :: "jsnum \<Rightarrow> jsnum \<Rightarrow> jsnum" where
  "diluted tot x = (if jgt tot (Fin 0) then jmul (jdiv x tot) (Fin 100) else x)"

text \<open>A scenario whose only round has a valuation of zero.\<close>

definition zero_round :: Round where
  "zero_round = \<lparr> round_name = ''Bridge'', investment = Fin 1000000, valuation = Fin 0,
                  RoundInsert.scenario_id = ''s1'', Round.id = ''r0'' \<rparr>"

definition zero_valuation :: ScenarioData where
  "zero_valuation =
     \<lparr> scenario = acme, founders = [alice, bob], rounds = [zero_round], esop = [pool] \<rparr>"

text \<open>A scenario with one founder holding 50 raw units, no round and no option pool.\<close>

definition carol :: Founder where
  "carol = \<lparr> NewFounder.name = ''Carol'', equity = Fin 50,
             FounderInsert.scenario_id = ''s1'', Founder.id = ''f3'' \<rparr>"

definition solo :: ScenarioData where
  "solo = \<lparr> scenario = acme, founders = [carol], rounds = [], esop = [] \<rparr>"

definition infinite_exit :: ExitTab where
  "infinite_exit = \<lparr> exitValuation = ''Infinity'', exitType = ''ipo'', exitResults = None \<rparr>"

text \<open>The sums that the conservation properties are about.\<close>

definition shares_sum :: "Analysis \<Rightarrow> jsnum" where
  "shares_sum a = jadd (jadd (dilutedFounderEquity a) (dilutedInvestorEquity a)) (dilutedEsopEquity a)"


definition rejected_exit :: ExitTab where
  "rejected_exit = \<lparr> exitValuation = ''-5'', exitType = ''merger'', exitResults = None \<rparr>"

text \<open>
  Two more scenarios with no round and no option pool: Carol (50) and Dave (30), and Erin
  alone, who holds nothing yet.
\<close>

definition dave :: Founder where
  "dave = \<lparr> NewFounder.name = ''Dave'', equity = Fin 30,
            FounderInsert.scenario_id = ''s1'', Founder.id = ''f4'' \<rparr>"

definition erin :: Founder where
  "erin = \<lparr> NewFounder.name = ''Erin'', equity = Fin 0,
            FounderInsert.scenario_id = ''s1'', Founder.id = ''f5'' \<rparr>"

definition partners :: ScenarioData where
  "partners = \<lparr> scenario = acme, founders = [carol, dave], rounds = [], esop = [] \<rparr>"

definition idle :: ScenarioData where
  "idle = \<lparr> scenario = acme, founders = [erin], rounds = [], esop = [] \<rparr>"

definition unparsable_exit :: ExitTab where
  "unparsable_exit = \<lparr> exitValuation = ''ten'', exitType = ''merger'', exitResults = None \<rparr>"


section \<open>Currency formatting\<close>

text \<open>The decimal digits of a non-negative integer.\<close>

definition digitChar :: "int \<Rightarrow> char" where
  "digitChar n = char_of (48 + n)"

function intToString :: "int \<Rightarrow> string" where
  "intToString n =
     (if n < 10 then [digitChar n] else intToString (n div 10) @ [digitChar (n mod 10)])"
  by pat_completeness auto

termination
  by (relation "measure nat") auto

declare intToString.simps [simp del]

text \<open>
  \<open>x.toFixed(f)\<close> of ECMAScript, for \<open>f\<close> from 0 to 100: a value that is not finite renders
  as its name; otherwise the sign, then the integer \<open>n\<close> nearest to \<open>x * 10^f\<close> (the
  larger one on a tie), padded with zeros to \<open>f + 1\<close> digits, with a point before the last
  \<open>f\<close> digits. From \<open>10^21\<close> on the builtin switches to the exponent notation of the
  double, which has no counterpart on exact values: the model answers \<open>None\<close> there.
\<close>

definition toFixed :: "jsnum \<Rightarrow> nat \<Rightarrow> string option" where
  "toFixed x f =
    (case x of
       NaN \<Rightarrow> Some ''NaN''
     | PInf \<Rightarrow> Some ''Infinity''
     | NInf \<Rightarrow> Some ''-Infinity''
     | Fin q \<Rightarrow>
         let s = (if q < 0 then ''-'' else '''');
             x = (if q < 0 then - q else q)
         in if 10 ^ 21 \<le> x then None
            else
              let n = \<lfloor>x * 10 ^ f + 1 / 2\<rfloor>;
                  m = intToString n;
                  m = (if f \<noteq> 0 then
                         let m = (if length m \<le> f
                                  then replicate (f + 1 - length m) (CHR ''0'') @ m else m);
                             k = length m
                         in take (k - f) m @ ''.'' @ drop (k - f) m
                       else m)
              in Some (s @ m))"

text \<open>A template literal around a rendered number.\<close>

definition template :: "string \<Rightarrow> string option \<Rightarrow> string \<Rightarrow> string option" where
  "template pre m post = map_option (\<lambda>m. pre @ m @ post) m"

text \<open>\<open>formatCurrency\<close> of the exit tab.\<close>

definition formatCurrency_ExitTab :: "jsnum \<Rightarrow> string option" where
  "formatCurrency_ExitTab amount =
    (if jge amount (Fin 1000000000) then
       template ''$'' (toFixed (jdiv amount (Fin 1000000000)) 2) ''B''
     else if jge amount (Fin 1000000) then
       template ''$'' (toFixed (jdiv amount (Fin 1000000)) 2) ''M''
     else if jge amount (Fin 1000) then
       template ''$'' (toFixed (jdiv amount (Fin 1000)) 2) ''K''
     else template ''$'' (toFixed amount 0) '''')"

text \<open>\<open>formatCurrency\<close> of the metrics cards.\<close>

definition formatCurrency_MetricsCards :: "jsnum \<Rightarrow> string option" where
  "formatCurrency_MetricsCards amount =
    (if jge amount (Fin 1000000) then
       template ''$'' (toFixed (jdiv amount (Fin 1000000)) 1) ''M''
     else if jge amount (Fin 1000) then
       template ''$'' (toFixed (jdiv amount (Fin 1000)) 1) ''K''
     else template ''$'' (toFixed amount 1) '''')"

text \<open>
  \<open>formatCurrency\<close> of the funding tab and of the analysis view. Below 1000 they call
  \<open>toLocaleString\<close>, whose output depends on the locale of the browser: it is a parameter.
\<close>

definition formatCurrency_FundingTab :: "(jsnum \<Rightarrow> string) \<Rightarrow> jsnum \<Rightarrow> string option" where
  "formatCurrency_FundingTab toLocaleString amount =
    (if jge amount (Fin 1000000) then
       template ''$'' (toFixed (jdiv amount (Fin 1000000)) 1) ''M''
     else if jge amount (Fin 1000) then
       template ''$'' (toFixed (jdiv amount (Fin 1000)) 1) ''K''
     else template ''$'' (Some (toLocaleString amount)) '''')"

definition formatCurrency_AnalysisTab :: "(jsnum \<Rightarrow> string) \<Rightarrow> jsnum \<Rightarrow> string option" where
  "formatCurrency_AnalysisTab toLocaleString amount =
    (if jge amount (Fin 1000000) then
       template ''$'' (toFixed (jdiv amount (Fin 1000000)) 2) ''M''
     else if jge amount (Fin 1000) then
       template ''$'' (toFixed (jdiv amount (Fin 1000)) 2) ''K''
     else template ''$'' (Some (toLocaleString amount)) '''')"

text \<open>
  What it means for a string to show \<open>x\<close> with \<open>d\<close> decimals: an optional minus sign,
  at least one digit, then (for \<open>d > 0\<close>) a point and exactly \<open>d\<close> digits, the number
  written being within half a unit of the last decimal of \<open>x\<close>.
\<close>

definition shows_unsigned :: "nat \<Rightarrow> rat \<Rightarrow> string \<Rightarrow> bool" where
  "shows_unsigned d x s =
    (let ip = (if d = 0 then s else take (length s - (d + 1)) s);
         fp = (if d = 0 then [] else drop (length s - d) s)
     in ip \<noteq> [] \<and> list_all isDigit (ip @ fp) \<and> length fp = d
        \<and> (d = 0 \<or> s = ip @ ''.'' @ fp)
        \<and> \<bar>of_int (digitsVal (ip @ fp)) / 10 ^ d - x\<bar> \<le> 1 / (2 * 10 ^ d))"

definition shows_decimals :: "nat \<Rightarrow> rat \<Rightarrow> string \<Rightarrow> bool" where
  "shows_decimals d x s =
    (if x < 0 then (case s of [] \<Rightarrow> False | c # r \<Rightarrow> c = CHR ''-'' \<and> shows_unsigned d (- x) r)
     else shows_unsigned d x s)"

text \<open>
  The formatted amount \<open>out\<close> is \<open>pre\<close>, then \<open>x\<close> shown with \<open>d\<close> decimals, then \<open>post\<close>.
\<close>

definition renders :: "string option \<Rightarrow> string \<Rightarrow> nat \<Rightarrow> rat \<Rightarrow> string \<Rightarrow> bool" where
  "renders out pre d x post =
    (case out of
       None \<Rightarrow> False
     | Some s \<Rightarrow>
         length pre + length post \<le> length s
         \<and> take (length pre) s = pre
         \<and> drop (length s - length post) s = post
         \<and> shows_decimals d x (take (length s - length pre - length post) (drop (length pre) s)))"


section \<open>Scenario store gateway (class \<open>SupabaseFunctions\<close>)\<close>

subsection \<open>The store client\<close>

text \<open>
  What awaiting a query of the store client yields: an object with \<open>data\<close> and no error,
  an object with an \<open>error\<close>, whose \<open>data\<close> is \<open>null\<close>, or nothing, when the promise rejects
  and the \<open>await\<close> throws. A response without an error is taken to carry its data. A
  query that selects nothing back (an update, a delete) answers \<open>Data ()\<close> on success.
\<close>

datatype 'a response = Data 'a | Error string | Rejected string

text \<open>
  \<open>Partial<T>\<close>, the argument of the update operations: a list of field assignments.
\<close>

datatype ScenarioField =
  Scenario_id string | Scenario_user_id string | Scenario_name string
  | Scenario_created_at string | Scenario_updated_at string

datatype FounderField =
  Founder_id string | Founder_scenario_id string | Founder_name string | Founder_equity jsnum

datatype RoundField =
  Round_id string | Round_scenario_id string | Round_round_name string
  | Round_investment jsnum | Round_valuation jsnum

datatype ESOPField =
  ESOP_id string | ESOP_scenario_id string | ESOP_percentage jsnum

text \<open>
  The client itself (\<open>@/integrations/supabase/client\<close>) and the store behind it are not
  part of the sources: they are a parameter of every gateway operation, one function per
  query that the gateway builds, over a store of any type \<open>'s\<close>. A query that writes
  returns the store it leaves; a query that reads does not change it.

  \<^item> \<open>insert_select rows\<close> is \<open>.insert(rows).select()\<close>,
  \<^item> \<open>insert_select_single rows\<close> is \<open>.insert(rows).select().single()\<close>,
  \<^item> \<open>select_eq_scenario_id v\<close> is \<open>.select('*').eq('scenario_id', v)\<close>,
  \<^item> \<open>update_eq_id u v\<close> is \<open>.update(u).eq('id', v)\<close>,
  \<^item> \<open>delete_eq_id v\<close> is \<open>.delete().eq('id', v)\<close>,
  \<^item> \<open>delete_eq_scenario_id v\<close> is \<open>.delete().eq('scenario_id', v)\<close>,
  \<^item> \<open>scenarios_insert_select_single n\<close> is \<open>.insert({ name: n }).select().single()\<close>,
  \<^item> \<open>scenarios_select_order\<close> is \<open>.select('*').order('updated_at', { ascending: false })\<close>,
  \<^item> \<open>scenarios_select_eq_id_single v\<close> is \<open>.select('*').eq('id', v).single()\<close>.
\<close>

record ('s, 'ins, 'row, 'upd) child_table =
  insert_select :: "'ins list \<Rightarrow> 's \<Rightarrow> 'row list response \<times> 's"
  insert_select_single :: "'ins list \<Rightarrow> 's \<Rightarrow> 'row response \<times> 's"
  select_eq_scenario_id :: "string \<Rightarrow> 's \<Rightarrow> 'row list response"
  update_eq_id :: "'upd \<Rightarrow> string \<Rightarrow> 's \<Rightarrow> unit response \<times> 's"
  delete_eq_id :: "string \<Rightarrow> 's \<Rightarrow> unit response \<times> 's"
  delete_eq_scenario_id :: "string \<Rightarrow> 's \<Rightarrow> unit response \<times> 's"

record 's scenarios_table =
  scenarios_insert_select_single :: "string \<Rightarrow> 's \<Rightarrow> Scenario response \<times> 's"
  scenarios_select_order :: "'s \<Rightarrow> Scenario list response"
  scenarios_select_eq_id_single :: "string \<Rightarrow> 's \<Rightarrow> Scenario response"
  scenarios_update_eq_id :: "ScenarioField list \<Rightarrow> string \<Rightarrow> 's \<Rightarrow> unit response \<times> 's"
  scenarios_delete_eq_id :: "string \<Rightarrow> 's \<Rightarrow> unit response \<times> 's"

record 's supabase =
  from_scenarios :: "'s scenarios_table"
  from_founders :: "('s, FounderInsert, Founder, FounderField list) child_table"
  from_rounds :: "('s, RoundInsert, Round, RoundField list) child_table"
  from_esop :: "('s, ESOPInsert, ESOP, ESOPField list) child_table"

subsection \<open>The operations\<close>

text \<open>
  Every operation is one \<open>try\<close> block whose \<open>catch\<close> logs and returns the failure value.
  (A variable of the source whose name is taken by a constant carries a prime here.)
  Inside, \<open>const { data, error } = await q; if (error) throw error\<close> goes on with the data
  or leaves for the \<open>catch\<close>, on an error as on a rejection: \<open>checked\<close> is \<open>None\<close> then.
  \<open>data || []\<close> is \<open>data_or_empty\<close>.
\<close>

definition checked :: "'a response \<Rightarrow> 'a option" where
  "checked r = (case r of Data x \<Rightarrow> Some x | Error e \<Rightarrow> None | Rejected e \<Rightarrow> None)"



definition createScenario ::
  "'s supabase \<Rightarrow> CreateScenarioRequest \<Rightarrow> 's \<Rightarrow> ScenarioData option \<times> 's" where
  "createScenario supabase data s =
    (let (scenarioRes, s1) =
           scenarios_insert_select_single (from_scenarios supabase)
             (CreateScenarioRequest.name data) s
     in case checked scenarioRes of
          None \<Rightarrow> (None, s1)
        | Some scenario' \<Rightarrow>
            let foundersToInsert =
                  map (\<lambda>founder. \<lparr> NewFounder.name = NewFounder.name founder,
                                    equity = equity founder,
                                    FounderInsert.scenario_id = Scenario.id scenario' \<rparr>)
                      (CreateScenarioRequest.founders data);
                (foundersRes, s2) = insert_select (from_founders supabase) foundersToInsert s1
            in case checked foundersRes of
                 None \<Rightarrow> (None, s2)
               | Some founders' \<Rightarrow>
                   let (roundsRes, s3) =
                         (case CreateScenarioRequest.rounds data of
                            None \<Rightarrow> (Some [], s2)
                          | Some rs \<Rightarrow>
                              if length rs > 0 then
                                let roundsToInsert =
                                      map (\<lambda>round. \<lparr> round_name = round_name round,
                                                      investment = investment round,
                                                      valuation = valuation round,
                                                      RoundInsert.scenario_id = Scenario.id scenario' \<rparr>)
                                          rs;
                                    (res, s3) = insert_select (from_rounds supabase) roundsToInsert s2
                                in (checked res, s3)
                              else (Some [], s2))
                   in case roundsRes of
                        None \<Rightarrow> (None, s3)
                      | Some rounds' \<Rightarrow>
                          let (esopRes, s4) =
                                (case CreateScenarioRequest.esop data of
                                   None \<Rightarrow> (Some [], s3)
                                 | Some es \<Rightarrow>
                                     if length es > 0 then
                                       let esopToInsert =
                                             map (\<lambda>e. \<lparr> percentage = percentage e,
                                                         ESOPInsert.scenario_id = Scenario.id scenario' \<rparr>)
                                                 es;
                                           (res, s4) = insert_select (from_esop supabase) esopToInsert s3
                                       in (checked res, s4)
                                     else (Some [], s3))
                          in case esopRes of
                               None \<Rightarrow> (None, s4)
                             | Some esop' \<Rightarrow>
                                 (Some \<lparr> scenario = scenario', founders = founders',
                                         rounds = rounds', esop = esop' \<rparr>, s4))"














text \<open>
  The blocks of \<open>createScenario\<close> by themselves, for the properties that follow a store
  through them: the rows it builds, and its two optional inserts.
\<close>

definition foundersToInsert :: "Scenario \<Rightarrow> NewFounder list \<Rightarrow> FounderInsert list" where
  "foundersToInsert scenario' fs =
     map (\<lambda>founder. \<lparr> NewFounder.name = NewFounder.name founder, equity = equity founder,
                       FounderInsert.scenario_id = Scenario.id scenario' \<rparr>) fs"

definition roundsToInsert :: "Scenario \<Rightarrow> NewRound list \<Rightarrow> RoundInsert list" where
  "roundsToInsert scenario' rs =
     map (\<lambda>round. \<lparr> round_name = round_name round, investment = investment round,
                     valuation = valuation round,
                     RoundInsert.scenario_id = Scenario.id scenario' \<rparr>) rs"

definition esopToInsert :: "Scenario \<Rightarrow> NewESOP list \<Rightarrow> ESOPInsert list" where
  "esopToInsert scenario' es =
     map (\<lambda>e. \<lparr> percentage = percentage e,
                 ESOPInsert.scenario_id = Scenario.id scenario' \<rparr>) es"

definition createRounds ::
  "'s supabase \<Rightarrow> Scenario \<Rightarrow> CreateScenarioRequest \<Rightarrow> 's \<Rightarrow> Round list option \<times> 's" where
  "createRounds supabase scenario' data s2 =
    (case CreateScenarioRequest.rounds data of
       None \<Rightarrow> (Some [], s2)
     | Some rs \<Rightarrow>
         if length rs > 0 then
           let (res, s3) = insert_select (from_rounds supabase) (roundsToInsert scenario' rs) s2
           in (checked res, s3)
         else (Some [], s2))"

definition createEsop ::
  "'s supabase \<Rightarrow> Scenario \<Rightarrow> CreateScenarioRequest \<Rightarrow> 's \<Rightarrow> ESOP list option \<times> 's" where
  "createEsop supabase scenario' data s3 =
    (case CreateScenarioRequest.esop data of
       None \<Rightarrow> (Some [], s3)
     | Some es \<Rightarrow>
         if length es > 0 then
           let (res, s4) = insert_select (from_esop supabase) (esopToInsert scenario' es) s3
           in (checked res, s4)
         else (Some [], s3))"

subsection \<open>A store in memory\<close>

text \<open>
  Modelled from the spec: the remote data store and its client, which the sources do not
  contain. The spec asks of it only the queries of its section 6; this one keeps four
  tables in memory, gives every new row the next number as its \<open>id\<close>, and answers every
  query on a table listed as \<open>unavailable\<close> with an error, without touching it. It serves
  as the concrete store of the examples; the properties of the gateway hold for every
  client.
\<close>

record Store =
  scenario_rows :: "Scenario list"
  founder_rows :: "Founder list"
  round_rows :: "Round list"
  esop_rows :: "ESOP list"
  unavailable :: "string list"
  next_id :: int

fun set_ScenarioField :: "ScenarioField \<Rightarrow> Scenario \<Rightarrow> Scenario" where
  "set_ScenarioField (Scenario_id v) r = r\<lparr> Scenario.id := v \<rparr>"
| "set_ScenarioField (Scenario_user_id v) r = r\<lparr> user_id := v \<rparr>"
| "set_ScenarioField (Scenario_name v) r = r\<lparr> Scenario.name := v \<rparr>"
| "set_ScenarioField (Scenario_created_at v) r = r\<lparr> created_at := v \<rparr>"
| "set_ScenarioField (Scenario_updated_at v) r = r\<lparr> updated_at := v \<rparr>"

fun set_FounderField :: "FounderField \<Rightarrow> Founder \<Rightarrow> Founder" where
  "set_FounderField (Founder_id v) r = r\<lparr> Founder.id := v \<rparr>"
| "set_FounderField (Founder_scenario_id v) r = r\<lparr> FounderInsert.scenario_id := v \<rparr>"
| "set_FounderField (Founder_name v) r = r\<lparr> NewFounder.name := v \<rparr>"
| "set_FounderField (Founder_equity v) r = r\<lparr> equity := v \<rparr>"

fun set_RoundField :: "RoundField \<Rightarrow> Round \<Rightarrow> Round" where
  "set_RoundField (Round_id v) r = r\<lparr> Round.id := v \<rparr>"
| "set_RoundField (Round_scenario_id v) r = r\<lparr> RoundInsert.scenario_id := v \<rparr>"
| "set_RoundField (Round_round_name v) r = r\<lparr> round_name := v \<rparr>"
| "set_RoundField (Round_investment v) r = r\<lparr> investment := v \<rparr>"
| "set_RoundField (Round_valuation v) r = r\<lparr> valuation := v \<rparr>"

fun set_ESOPField :: "ESOPField \<Rightarrow> ESOP \<Rightarrow> ESOP" where
  "set_ESOPField (ESOP_id v) r = r\<lparr> ESOP.id := v \<rparr>"
| "set_ESOPField (ESOP_scenario_id v) r = r\<lparr> ESOPInsert.scenario_id := v \<rparr>"
| "set_ESOPField (ESOP_percentage v) r = r\<lparr> percentage := v \<rparr>"

definition fresh_ids :: "Store \<Rightarrow> nat \<Rightarrow> string list" where
  "fresh_ids s n = map (\<lambda>k. intToString (next_id s + int k)) [0..<n]"

definition memory_scenarios :: "Store scenarios_table" where
  "memory_scenarios =
    \<lparr> scenarios_insert_select_single = (\<lambda>n s.
        if ''scenarios'' \<in> set (unavailable s) then (Error ''unavailable'', s)
        else
          let row = \<lparr> Scenario.id = intToString (next_id s), user_id = ''user'',
                      Scenario.name = n, created_at = ''now'', updated_at = ''now'' \<rparr>
          in (Data row, s\<lparr> scenario_rows := row # scenario_rows s, next_id := next_id s + 1 \<rparr>)),
      scenarios_select_order = (\<lambda>s.
        if ''scenarios'' \<in> set (unavailable s) then Error ''unavailable''
        else Data (scenario_rows s)),
      scenarios_select_eq_id_single = (\<lambda>v s.
        if ''scenarios'' \<in> set (unavailable s) then Error ''unavailable''
        else (case filter (\<lambda>r. Scenario.id r = v) (scenario_rows s) of
                [r] \<Rightarrow> Data r
              | _ \<Rightarrow> Error ''not a single row'')),
      scenarios_update_eq_id = (\<lambda>u v s.
        if ''scenarios'' \<in> set (unavailable s) then (Error ''unavailable'', s)
        else (Data (),
              s\<lparr> scenario_rows :=
                   map (\<lambda>r. if Scenario.id r = v then fold set_ScenarioField u r else r)
                       (scenario_rows s) \<rparr>)),
      scenarios_delete_eq_id = (\<lambda>v s.
        if ''scenarios'' \<in> set (unavailable s) then (Error ''unavailable'', s)
        else (Data (),
              s\<lparr> scenario_rows := filter (\<lambda>r. Scenario.id r \<noteq> v) (scenario_rows s) \<rparr>)) \<rparr>"

definition memory_child ::
  "string \<Rightarrow> (Store \<Rightarrow> 'row list) \<Rightarrow> ('row list \<Rightarrow> Store \<Rightarrow> Store) \<Rightarrow> (string \<Rightarrow> 'ins \<Rightarrow> 'row)
     \<Rightarrow> ('row \<Rightarrow> string) \<Rightarrow> ('row \<Rightarrow> string) \<Rightarrow> ('f \<Rightarrow> 'row \<Rightarrow> 'row)
     \<Rightarrow> (Store, 'ins, 'row, 'f list) child_table" where
  "memory_child table get put stored row_id row_scenario_id set_field =
    \<lparr> insert_select = (\<lambda>rows s.
        if table \<in> set (unavailable s) then (Error ''unavailable'', s)
        else
          let new = map (\<lambda>(i, r). stored i r) (zip (fresh_ids s (length rows)) rows)
          in (Data new, (put (get s @ new) s)\<lparr> next_id := next_id s + int (length rows) \<rparr>)),
      insert_select_single = (\<lambda>rows s.
        if table \<in> set (unavailable s) then (Error ''unavailable'', s)
        else
          let new = map (\<lambda>(i, r). stored i r) (zip (fresh_ids s (length rows)) rows)
          in (case new of [r] \<Rightarrow> Data r | _ \<Rightarrow> Error ''not a single row'',
              (put (get s @ new) s)\<lparr> next_id := next_id s + int (length rows) \<rparr>)),
      select_eq_scenario_id = (\<lambda>v s.
        if table \<in> set (unavailable s) then Error ''unavailable''
        else Data (filter (\<lambda>r. row_scenario_id r = v) (get s))),
      update_eq_id = (\<lambda>u v s.
        if table \<in> set (unavailable s) then (Error ''unavailable'', s)
        else (Data (), put (map (\<lambda>r. if row_id r = v then fold set_field u r else r) (get s)) s)),
      delete_eq_id = (\<lambda>v s.
        if table \<in> set (unavailable s) then (Error ''unavailable'', s)
        else (Data (), put (filter (\<lambda>r. row_id r \<noteq> v) (get s)) s)),
      delete_eq_scenario_id = (\<lambda>v s.
        if table \<in> set (unavailable s) then (Error ''unavailable'', s)
        else (Data (), put (filter (\<lambda>r. row_scenario_id r \<noteq> v) (get s)) s)) \<rparr>"

definition memory :: "Store supabase" where
  "memory =
    \<lparr> from_scenarios = memory_scenarios,
      from_founders =
        memory_child ''founders'' founder_rows (\<lambda>rows s. s\<lparr> founder_rows := rows \<rparr>)
          (\<lambda>i r. \<lparr> NewFounder.name = NewFounder.name r, equity = equity r,
                   FounderInsert.scenario_id = FounderInsert.scenario_id r, Founder.id = i \<rparr>)
          Founder.id FounderInsert.scenario_id set_FounderField,
      from_rounds =
        memory_child ''rounds'' round_rows (\<lambda>rows s. s\<lparr> round_rows := rows \<rparr>)
          (\<lambda>i r. \<lparr> round_name = round_name r, investment = investment r,
                   valuation = valuation r,
                   RoundInsert.scenario_id = RoundInsert.scenario_id r, Round.id = i \<rparr>)
          Round.id RoundInsert.scenario_id set_RoundField,
      from_esop =
        memory_child ''esop'' esop_rows (\<lambda>rows s. s\<lparr> esop_rows := rows \<rparr>)
          (\<lambda>i r. \<lparr> percentage = percentage r,
                   ESOPInsert.scenario_id = ESOPInsert.scenario_id r, ESOP.id = i \<rparr>)
          ESOP.id ESOPInsert.scenario_id set_ESOPField \<rparr>"

text \<open>Two requests, and the rows that they leave in an empty store, numbered from 1.\<close>

definition new_alice :: NewFounder where
  "new_alice = \<lparr> NewFounder.name = ''Alice'', equity = Fin 60 \<rparr>"

definition new_bob :: NewFounder where
  "new_bob = \<lparr> NewFounder.name = ''Bob'', equity = Fin 40 \<rparr>"



definition request :: CreateScenarioRequest where
  "request = \<lparr> CreateScenarioRequest.name = ''Acme'',
               CreateScenarioRequest.founders = [new_alice, new_bob],
               CreateScenarioRequest.rounds = None,
               CreateScenarioRequest.esop = None \<rparr>"


definition stored_acme :: Scenario where
  "stored_acme = \<lparr> Scenario.id = ''1'', user_id = ''user'', Scenario.name = ''Acme'',
                   created_at = ''now'', updated_at = ''now'' \<rparr>"




text \<open>
  The stores on the way of a creation, each with a list \<open>u\<close> of unavailable tables:
  empty, holding the scenario, holding its founders too, holding its round too.
\<close>

definition store_empty :: "string list \<Rightarrow> Store" where
  "store_empty u = \<lparr> scenario_rows = [], founder_rows = [], round_rows = [], esop_rows = [],
                     unavailable = u, next_id = 1 \<rparr>"

definition store_scenario :: "string list \<Rightarrow> Store" where
  "store_scenario u = \<lparr> scenario_rows = [stored_acme], founder_rows = [], round_rows = [],
                        esop_rows = [], unavailable = u, next_id = 2 \<rparr>"





section \<open>Properties of the calculator\<close>

subsection \<open>Arithmetic on finite values\<close>

lemma jadd_Fin_iff: "jadd a b = Fin t \<longleftrightarrow> (\<exists>x y. a = Fin x \<and> b = Fin y \<and> t = x + y)"
  by (cases a; cases b; auto)

lemma jgt_zero_iff: "jgt v (Fin 0) \<longleftrightarrow> v = PInf \<or> (\<exists>q. v = Fin q \<and> 0 < q)"
  by (cases v) auto

lemma jgt_zero_guards: "jgt v (Fin 0) \<Longrightarrow> \<not> isNaN v \<and> \<not> jle v (Fin 0)"
  by (cases v) auto

lemma guards_jgt_zero: "\<not> isNaN v \<Longrightarrow> \<not> jle v (Fin 0) \<Longrightarrow> jgt v (Fin 0)"
  by (cases v) auto

lemma parseFloat_Nil: "parseFloat [] = NaN"
  by (simp add: parseFloat_def)

lemma jor_Fin_zero: "jor (Fin s) (Fin 0) = Fin s"
  by (simp add: jor_def truthy_def)

lemma jor_zero_Fin: "jor a (Fin 0) = Fin t \<Longrightarrow> a = Fin t \<or> (a = NaN \<and> t = 0)"
  by (auto simp: jor_def truthy_def split: if_splits)

lemma foldl_jadd_Fin:
  "foldl (\<lambda>s x. jadd s (f x)) a xs = Fin t \<Longrightarrow>
     (\<exists>q. a = Fin q) \<and> (\<forall>x \<in> set xs. \<exists>q. f x = Fin q)"
proof (induction xs arbitrary: a)
  case Nil
  then show ?case by simp
next
  case (Cons x xs)
  from Cons.prems have "foldl (\<lambda>s x. jadd s (f x)) (jadd a (f x)) xs = Fin t"
    by simp
  from Cons.IH [OF this] obtain q where q: "jadd a (f x) = Fin q"
    and rest: "\<forall>y \<in> set xs. \<exists>q. f y = Fin q"
    by blast
  from q show ?case
    using rest by (auto simp: jadd_Fin_iff)
qed

lemma diluted_sum:
  assumes "jadd (jadd F E) I = Fin t" and "0 < t"
  shows "jadd (jadd (diluted (Fin t) F) (diluted (Fin t) I)) (diluted (Fin t) E) = Fin 100"
proof -
  from assms(1) obtain f e i where fe: "F = Fin f" "E = Fin e" "I = Fin i" "t = f + e + i"
    by (auto simp: jadd_Fin_iff)
  have "f / t * 100 + i / t * 100 + e / t * 100 = (f + e + i) / t * 100"
    by (simp add: add_divide_distrib distrib_right)
  also have "\<dots> = 100"
    using assms(2) fe(4) by simp
  finally show ?thesis
    using assms(2) by (simp add: diluted_def fe(1-3))
qed

lemma AnalysisTab_totalEquity:
  "totalEquity (AnalysisTab sd) =
     jadd (jadd (founderEquity (AnalysisTab sd)) (esopEquity (AnalysisTab sd)))
          (investorEquity (AnalysisTab sd))"
  by (simp add: AnalysisTab_def Let_def)

lemma AnalysisTab_diluted:
  "dilutedFounderEquity (AnalysisTab sd) =
     diluted (totalEquity (AnalysisTab sd)) (founderEquity (AnalysisTab sd))"
  "dilutedEsopEquity (AnalysisTab sd) =
     diluted (totalEquity (AnalysisTab sd)) (esopEquity (AnalysisTab sd))"
  "dilutedInvestorEquity (AnalysisTab sd) =
     diluted (totalEquity (AnalysisTab sd)) (investorEquity (AnalysisTab sd))"
  by (simp_all add: AnalysisTab_def Let_def diluted_def)

subsection \<open>The result of \<open>calculateExit\<close> past its guards\<close>

lemma calculateExit_results:
  assumes "exitValuation st \<noteq> []" and "\<not> isNaN (parseFloat (exitValuation st))"
    and "\<not> jle (parseFloat (exitValuation st)) (Fin 0)"
  shows "calculateExit (Some d) st = st\<lparr> exitResults := Some
     \<lparr> ExitResults.exitValuation = parseFloat (exitValuation st),
       ExitResults.exitType = exitType st,
       founderProceeds =
         jmul (jdiv (diluted (exit_totalEquity d) (exit_founderEquity d)) (Fin 100))
              (parseFloat (exitValuation st)),
       esopProceeds =
         jmul (jdiv (diluted (exit_totalEquity d) (esop0_percentage (esop d))) (Fin 100))
              (parseFloat (exitValuation st)),
       investorProceeds =
         jmul (jdiv (diluted (exit_totalEquity d) (exit_investorEquity d)) (Fin 100))
              (parseFloat (exitValuation st)),
       investorReturn =
         (if jgt (exit_totalInvestment d) (Fin 0)
          then jdiv (jmul (jdiv (diluted (exit_totalEquity d) (exit_investorEquity d)) (Fin 100))
                          (parseFloat (exitValuation st))) (exit_totalInvestment d)
          else Fin 0),
       founderBreakdown =
         map (\<lambda>founder.
                \<lparr> FounderBreakdown.name = NewFounder.name founder,
                  originalEquity = equity founder,
                  FounderBreakdown.currentEquity = diluted (exit_totalEquity d) (equity founder),
                  proceeds = jmul (jdiv (diluted (exit_totalEquity d) (equity founder)) (Fin 100))
                                  (parseFloat (exitValuation st)) \<rparr>)
             (founders d),
       ExitResults.totalInvestment = exit_totalInvestment d \<rparr> \<rparr>"
  using assms
  unfolding calculateExit_def exit_totalEquity_def exit_totalInvestment_def
    exit_founderEquity_def exit_investorEquity_def diluted_def Let_def
  by simp

subsection \<open>The worked scenario\<close>

lemma example_investorEquity: "investorEquity (AnalysisTab (Some example)) = Fin 20"
  by code_simp

lemma example_totalEquity: "totalEquity (AnalysisTab (Some example)) = Fin 130"
  by code_simp

lemma example_dilutedFounderEquity:
  "dilutedFounderEquity (AnalysisTab (Some example)) = Fin (100 / 130 * 100)"
  by code_simp

lemma example_dilutedInvestorEquity:
  "dilutedInvestorEquity (AnalysisTab (Some example)) = Fin (20 / 130 * 100)"
  by code_simp

lemma example_dilutedEsopEquity:
  "dilutedEsopEquity (AnalysisTab (Some example)) = Fin (10 / 130 * 100)"
  by code_simp

lemma example_exit_investorEquity: "exit_investorEquity example = Fin 20"
  by code_simp

lemma example_exit_totalEquity: "exit_totalEquity example = Fin 130"
  by code_simp

lemma example_exit_founderEquity: "exit_founderEquity example = Fin 100"
  by code_simp

lemma example_exit_esop: "esop0_percentage (esop example) = Fin 10"
  by code_simp

lemma example_exit_totalInvestment: "exit_totalInvestment example = Fin 1000000"
  by code_simp

lemma parseFloat_10000000: "parseFloat ''10000000'' = Fin 10000000"
  by code_simp

lemma exit_input_valuation: "parseFloat (exitValuation exit_input) = Fin 10000000"
  by (simp add: exit_input_def parseFloat_10000000)

lemma exit_input_nonempty: "exitValuation exit_input \<noteq> []"
  by (simp add: exit_input_def)

lemma example_calculateExit:
  "exitResults (calculateExit (Some example) exit_input) = Some
     \<lparr> ExitResults.exitValuation = Fin 10000000,
       ExitResults.exitType = ''acquisition'',
       founderProceeds = Fin (100000000 / 13),
       esopProceeds = Fin (10000000 / 13),
       investorProceeds = Fin (20000000 / 13),
       investorReturn = Fin (20 / 13),
       founderBreakdown =
         [\<lparr> FounderBreakdown.name = ''Alice'', originalEquity = Fin 60,
            FounderBreakdown.currentEquity = Fin (600 / 13), proceeds = Fin (60000000 / 13) \<rparr>,
          \<lparr> FounderBreakdown.name = ''Bob'', originalEquity = Fin 40,
            FounderBreakdown.currentEquity = Fin (400 / 13), proceeds = Fin (40000000 / 13) \<rparr>],
       ExitResults.totalInvestment = Fin 1000000 \<rparr>"
proof -
  have guards: "\<not> isNaN (parseFloat (exitValuation exit_input))"
    "\<not> jle (parseFloat (exitValuation exit_input)) (Fin 0)"
    by (simp_all add: exit_input_valuation)
  have fs: "founders example = [alice, bob]"
    by (simp add: example_def)
  show ?thesis
    unfolding calculateExit_results [OF exit_input_nonempty guards]
    by (simp add: exit_input_valuation example_exit_totalEquity example_exit_founderEquity
        example_exit_esop example_exit_investorEquity example_exit_totalInvestment
        diluted_def fs alice_def bob_def exit_input_def parseFloat_10000000)
qed
text \<open>
  C1. Founders Alice (60) and Bob (40), one round of 1,000,000 at a valuation of 5,000,000
  and an option pool of 10: the round gives 20 units, the total is 130, the diluted shares
  are \<open>100/130*100\<close> (founders), \<open>20/130*100\<close> (investors) and \<open>10/130*100\<close> (pool); at an
  exit valuation of 10,000,000 the investors receive \<open>(20/130) * 10,000,000\<close>, which is
  that amount over 1,000,000 times their investment, about 1.54.
\<close>

theorem worked_scenario:
  "investorEquity (AnalysisTab (Some example)) = Fin 20
   \<and> totalEquity (AnalysisTab (Some example)) = Fin 130
   \<and> dilutedFounderEquity (AnalysisTab (Some example)) = Fin (100 / 130 * 100)
   \<and> dilutedInvestorEquity (AnalysisTab (Some example)) = Fin (20 / 130 * 100)
   \<and> dilutedEsopEquity (AnalysisTab (Some example)) = Fin (10 / 130 * 100)
   \<and> exit_investorEquity example = Fin 20
   \<and> exit_totalEquity example = Fin 130
   \<and> map_option investorProceeds (exitResults (calculateExit (Some example) exit_input))
       = Some (Fin (20 / 130 * 10000000))
   \<and> map_option investorReturn (exitResults (calculateExit (Some example) exit_input))
       = Some (Fin (20 / 130 * 10000000 / 1000000))
   \<and> (153 / 100 :: rat) < 20 / 130 * 10000000 / 1000000
   \<and> (20 / 130 * 10000000 / 1000000 :: rat) < 154 / 100"
  by (simp add: example_investorEquity example_totalEquity example_dilutedFounderEquity
      example_dilutedInvestorEquity example_dilutedEsopEquity example_exit_investorEquity
      example_exit_totalEquity example_calculateExit)


subsection \<open>Diluted shares sum to 100\<close>

lemma zero_valuation_totalEquity: "totalEquity (AnalysisTab (Some zero_valuation)) = PInf"
  by code_simp

lemma zero_valuation_shares_sum: "shares_sum (AnalysisTab (Some zero_valuation)) = NaN"
  by code_simp

lemma zero_round_valuation: "valuation zero_round = Fin 0"
  by (simp add: zero_round_def)

lemma zero_valuation_rounds: "rounds zero_valuation = [zero_round]"
  by (simp add: zero_valuation_def)

lemma zero_valuation_dilutedFounderEquity:
  "dilutedFounderEquity (AnalysisTab (Some zero_valuation)) = Fin 0"
  by code_simp

lemma zero_valuation_dilutedInvestorEquity:
  "dilutedInvestorEquity (AnalysisTab (Some zero_valuation)) = NaN"
  by code_simp

lemma zero_valuation_dilutedEsopEquity:
  "dilutedEsopEquity (AnalysisTab (Some zero_valuation)) = Fin 0"
  by code_simp

text \<open>
  Whenever the total of the raw units is a finite number greater than 0, the diluted shares
  of founders, investors and option pool computed by the analysis view sum to exactly 100.
\<close>

lemma dilution_shares_sum:
  assumes "totalEquity (AnalysisTab sd) = Fin t" and "0 < t"
  shows "shares_sum (AnalysisTab sd) = Fin 100"
proof -
  have "jadd (jadd (founderEquity (AnalysisTab sd)) (esopEquity (AnalysisTab sd)))
          (investorEquity (AnalysisTab sd)) = Fin t"
    using assms(1) AnalysisTab_totalEquity [of sd] by simp
  from diluted_sum [OF this assms(2)] show ?thesis
    by (simp add: shares_sum_def AnalysisTab_diluted assms(1))
qed

lemma dilution_shares_sum_example:
  "totalEquity (AnalysisTab (Some example)) = Fin 130 \<and> (0::rat) < 130
   \<and> shares_sum (AnalysisTab (Some example)) = Fin 100"
  using dilution_shares_sum [OF example_totalEquity] example_totalEquity by simp

text \<open>
  C2. The claim asks that the three diluted shares sum to 100 on every aggregate whose
  total is greater than 0. The code breaks it where it divides by a valuation of zero: for
  Alice (60), Bob (40), a pool of 10 and one round of 1,000,000 at a valuation of 0, the
  total is \<open>Infinity\<close>, which is greater than 0, the diluted shares are 0 (founders),
  \<open>NaN\<close> (investors) and 0 (pool), and their sum is \<open>NaN\<close>.
\<close>

theorem zero_valuation_shares_not_100:
  "valuation zero_round = Fin 0
   \<and> rounds zero_valuation = [zero_round]
   \<and> totalEquity (AnalysisTab (Some zero_valuation)) = PInf
   \<and> jgt (totalEquity (AnalysisTab (Some zero_valuation))) (Fin 0)
   \<and> dilutedFounderEquity (AnalysisTab (Some zero_valuation)) = Fin 0
   \<and> dilutedInvestorEquity (AnalysisTab (Some zero_valuation)) = NaN
   \<and> dilutedEsopEquity (AnalysisTab (Some zero_valuation)) = Fin 0
   \<and> shares_sum (AnalysisTab (Some zero_valuation)) = NaN
   \<and> shares_sum (AnalysisTab (Some zero_valuation)) \<noteq> Fin 100"
  by (simp add: zero_round_valuation zero_valuation_rounds zero_valuation_totalEquity
      zero_valuation_dilutedFounderEquity zero_valuation_dilutedInvestorEquity
      zero_valuation_dilutedEsopEquity zero_valuation_shares_sum)

subsection \<open>Exit proceeds add up to the exit valuation\<close>

lemma calculateExit_accepts:
  assumes "jgt (parseFloat (exitValuation st)) (Fin 0)"
  shows "exitValuation st \<noteq> []" and "\<not> isNaN (parseFloat (exitValuation st))"
    and "\<not> jle (parseFloat (exitValuation st)) (Fin 0)"
proof -
  show "exitValuation st \<noteq> []"
    using assms parseFloat_Nil by auto
  show "\<not> isNaN (parseFloat (exitValuation st))"
    and "\<not> jle (parseFloat (exitValuation st)) (Fin 0)"
    using jgt_zero_guards [OF assms] by simp_all
qed


lemma zero_valuation_exit_totalEquity: "exit_totalEquity zero_valuation = PInf"
  by code_simp

lemma zero_valuation_exit_founderEquity: "exit_founderEquity zero_valuation = Fin 100"
  by code_simp

lemma zero_valuation_exit_esop: "esop0_percentage (esop zero_valuation) = Fin 10"
  by code_simp

lemma zero_valuation_exit_investorEquity: "exit_investorEquity zero_valuation = PInf"
  by code_simp

lemma zero_valuation_exit_totalInvestment: "exit_totalInvestment zero_valuation = Fin 1000000"
  by code_simp

lemma exit_input_accepted: "jgt (parseFloat (exitValuation exit_input)) (Fin 0)"
  by (simp add: exit_input_valuation)






lemma solo_exit_totalInvestment: "exit_totalInvestment solo = Fin 0"
  by code_simp

lemma parseFloat_Infinity: "parseFloat ''Infinity'' = PInf"
  by code_simp

lemma infinite_exit_valuation: "parseFloat (exitValuation infinite_exit) = PInf"
  by (simp add: infinite_exit_def parseFloat_Infinity)

lemma infinite_exit_accepted: "jgt (parseFloat (exitValuation infinite_exit)) (Fin 0)"
  by (simp add: infinite_exit_valuation)





subsection \<open>A round with a valuation of zero\<close>

lemma zero_valuation_investorEquity: "investorEquity (AnalysisTab (Some zero_valuation)) = PInf"
  by code_simp

lemma zero_valuation_exit:
  "exitResults (calculateExit (Some zero_valuation) exit_input) = Some
     \<lparr> ExitResults.exitValuation = Fin 10000000,
       ExitResults.exitType = ''acquisition'',
       founderProceeds = Fin 0,
       esopProceeds = Fin 0,
       investorProceeds = NaN,
       investorReturn = NaN,
       founderBreakdown =
         [\<lparr> FounderBreakdown.name = ''Alice'', originalEquity = Fin 60,
            FounderBreakdown.currentEquity = Fin 0, proceeds = Fin 0 \<rparr>,
          \<lparr> FounderBreakdown.name = ''Bob'', originalEquity = Fin 40,
            FounderBreakdown.currentEquity = Fin 0, proceeds = Fin 0 \<rparr>],
       ExitResults.totalInvestment = Fin 1000000 \<rparr>"
proof -
  have fs: "founders zero_valuation = [alice, bob]"
    by (simp add: zero_valuation_def)
  show ?thesis
    unfolding calculateExit_results [OF calculateExit_accepts [OF exit_input_accepted]]
    by (simp add: exit_input_valuation zero_valuation_exit_totalEquity
        zero_valuation_exit_founderEquity zero_valuation_exit_esop
        zero_valuation_exit_investorEquity zero_valuation_exit_totalInvestment
        diluted_def fs alice_def bob_def exit_input_def parseFloat_10000000)
qed

text \<open>
  C4. The claim asks that a round with a valuation of 0 never yields \<open>NaN\<close> or \<open>Infinity\<close>
  in an output. The code divides by the valuation unguarded: for Alice (60), Bob (40), a
  pool of 10 and one round of 1,000,000 at a valuation of 0, the analysis view computes an
  investor total of \<open>Infinity\<close> and a diluted investor share of \<open>NaN\<close>, and the exit
  computation at 10,000,000 stores investor proceeds and a return multiple of \<open>NaN\<close>.
\<close>

theorem zero_valuation_divides_through:
  "valuation zero_round = Fin 0
   \<and> rounds zero_valuation = [zero_round]
   \<and> investorEquity (AnalysisTab (Some zero_valuation)) = PInf
   \<and> totalEquity (AnalysisTab (Some zero_valuation)) = PInf
   \<and> dilutedInvestorEquity (AnalysisTab (Some zero_valuation)) = NaN
   \<and> map_option investorProceeds (exitResults (calculateExit (Some zero_valuation) exit_input))
       = Some NaN
   \<and> map_option investorReturn (exitResults (calculateExit (Some zero_valuation) exit_input))
       = Some NaN"
  by (simp add: zero_round_valuation zero_valuation_rounds zero_valuation_investorEquity
      zero_valuation_totalEquity zero_valuation_dilutedInvestorEquity zero_valuation_exit)

subsection \<open>No dilution\<close>

lemma AnalysisTab_founderRows:
  "founderRows (AnalysisTab (Some d)) =
     map (\<lambda>f. \<lparr> row_founder = f,
                 FounderRow.currentEquity = diluted (totalEquity (AnalysisTab (Some d))) (equity f),
                 value = jmul (jdiv (diluted (totalEquity (AnalysisTab (Some d))) (equity f)) (Fin 100))
                              (latestValuation (AnalysisTab (Some d))) \<rparr>)
         (founders d)"
  by (simp add: AnalysisTab_def Let_def diluted_def)

lemma AnalysisTab_founderEquity:
  "founderEquity (AnalysisTab (Some d)) = jor (exit_founderEquity d) (Fin 0)"
  by (simp add: AnalysisTab_def Let_def exit_founderEquity_def)

lemma AnalysisTab_no_rounds:
  assumes "rounds d = []" and "esop d = []" and "exit_founderEquity d = Fin s"
  shows "totalEquity (AnalysisTab (Some d)) = Fin s"
  using assms
  by (simp add: AnalysisTab_totalEquity AnalysisTab_founderEquity jor_Fin_zero)
     (simp add: AnalysisTab_def Let_def esop0_percentage_def jor_Fin_zero)

lemma exit_no_rounds:
  assumes "rounds d = []" and "esop d = []" and "exit_founderEquity d = Fin s"
  shows "exit_totalEquity d = Fin s"
  using assms
  by (simp add: exit_totalEquity_def exit_investorEquity_def esop0_percentage_def)

lemma founders_finite:
  assumes "exit_founderEquity d = Fin s" and "f \<in> set (founders d)"
  shows "\<exists>q. equity f = Fin q"
  using foldl_jadd_Fin [of equity "Fin 0" "founders d" s] assms
  by (simp add: exit_founderEquity_def)

lemma diluted_Fin:
  "diluted (Fin s) x = (if 0 < s then jmul (jdiv x (Fin s)) (Fin 100) else x)"
  by (simp add: diluted_def)

lemma solo_rows:
  "map FounderRow.currentEquity (founderRows (AnalysisTab (Some solo))) = [Fin 100]"
  by code_simp

lemma solo_shape: "rounds solo = [] \<and> esop solo = [] \<and> founders solo = [carol]"
  by (simp add: solo_def)

lemma carol_equity: "equity carol = Fin 50"
  by (simp add: carol_def)

lemma partners_shape: "rounds partners = []" "esop partners = []" "founders partners = [carol, dave]"
  by (simp_all add: partners_def)

lemma partners_exit_founderEquity: "exit_founderEquity partners = Fin 80"
  by code_simp

lemma idle_shape: "rounds idle = []" "esop idle = []" "founders idle = [erin]"
  by (simp_all add: idle_def)

lemma idle_exit_founderEquity: "exit_founderEquity idle = Fin 0"
  by code_simp

lemma erin_equity: "equity erin = Fin 0"
  by (simp add: erin_def)

text \<open>
  C5 (as amended). In a scenario with no round and no option pool, whose founders' raw
  equities sum to a finite \<open>s\<close>, the diluted share computed for a founder \<open>F\<close>, by the
  analysis view and by the exit computation alike, is \<open>(F.equity / s) * 100\<close> when
  \<open>s > 0\<close>, and \<open>F\<close>'s raw equity unchanged when \<open>s \<le> 0\<close>. (The quotient and the product
  are those of the code; they are exact here and rounded in the source.)
\<close>

theorem founder_share_without_dilution:
  assumes "rounds d = []" and "esop d = []" and "exit_founderEquity d = Fin s"
  shows "map row_founder (founderRows (AnalysisTab (Some d))) = founders d
         \<and> (\<forall>row \<in> set (founderRows (AnalysisTab (Some d))).
              FounderRow.currentEquity row =
                (if 0 < s then jmul (jdiv (equity (row_founder row)) (Fin s)) (Fin 100)
                 else equity (row_founder row)))
         \<and> (jgt (parseFloat (exitValuation st)) (Fin 0) \<longrightarrow>
             (\<exists>r. exitResults (calculateExit (Some d) st) = Some r
                \<and> map originalEquity (founderBreakdown r) = map equity (founders d)
                \<and> (\<forall>b \<in> set (founderBreakdown r).
                      FounderBreakdown.currentEquity b =
                        (if 0 < s then jmul (jdiv (originalEquity b) (Fin s)) (Fin 100)
                         else originalEquity b))))"
proof (intro conjI ballI impI)
  show "map row_founder (founderRows (AnalysisTab (Some d))) = founders d"
    by (simp add: AnalysisTab_founderRows comp_def)
next
  fix row
  assume "row \<in> set (founderRows (AnalysisTab (Some d)))"
  then obtain f where "row_founder row = f"
    "FounderRow.currentEquity row = diluted (Fin s) (equity f)"
    by (auto simp: AnalysisTab_founderRows AnalysisTab_no_rounds [OF assms])
  then show "FounderRow.currentEquity row =
               (if 0 < s then jmul (jdiv (equity (row_founder row)) (Fin s)) (Fin 100)
                else equity (row_founder row))"
    by (simp add: diluted_Fin)
next
  assume acc: "jgt (parseFloat (exitValuation st)) (Fin 0)"
  let ?r = "the (exitResults (calculateExit (Some d) st))"
  have res: "exitResults (calculateExit (Some d) st) = Some ?r"
    unfolding calculateExit_results [OF calculateExit_accepts [OF acc]] by simp
  have orig: "map originalEquity (founderBreakdown ?r) = map equity (founders d)"
    unfolding calculateExit_results [OF calculateExit_accepts [OF acc]]
    by (simp add: comp_def)
  have each: "FounderBreakdown.currentEquity b =
                (if 0 < s then jmul (jdiv (originalEquity b) (Fin s)) (Fin 100)
                 else originalEquity b)"
    if "b \<in> set (founderBreakdown ?r)" for b
  proof -
    from that obtain f :: Founder where "originalEquity b = equity f"
      "FounderBreakdown.currentEquity b = diluted (Fin s) (equity f)"
      unfolding calculateExit_results [OF calculateExit_accepts [OF acc]]
      by (auto simp: exit_no_rounds [OF assms])
    then show ?thesis
      by (simp add: diluted_Fin)
  qed
  show "\<exists>r. exitResults (calculateExit (Some d) st) = Some r
          \<and> map originalEquity (founderBreakdown r) = map equity (founders d)
          \<and> (\<forall>b \<in> set (founderBreakdown r).
                FounderBreakdown.currentEquity b =
                  (if 0 < s then jmul (jdiv (originalEquity b) (Fin s)) (Fin 100)
                   else originalEquity b))"
    using res orig each by blast
qed

theorem founder_share_without_dilution_witness:
  "rounds partners = [] \<and> esop partners = [] \<and> exit_founderEquity partners = Fin 80
   \<and> map row_founder (founderRows (AnalysisTab (Some partners))) = [carol, dave]
   \<and> FounderRow.currentEquity (hd (founderRows (AnalysisTab (Some partners)))) = Fin (125 / 2)
   \<and> jgt (parseFloat (exitValuation exit_input)) (Fin 0)
   \<and> (\<exists>r. exitResults (calculateExit (Some partners) exit_input) = Some r
          \<and> map originalEquity (founderBreakdown r) = [Fin 50, Fin 30]
          \<and> FounderBreakdown.currentEquity (hd (founderBreakdown r)) = Fin (125 / 2))
   \<and> rounds idle = [] \<and> esop idle = [] \<and> exit_founderEquity idle = Fin 0
   \<and> map row_founder (founderRows (AnalysisTab (Some idle))) = [erin]
   \<and> FounderRow.currentEquity (hd (founderRows (AnalysisTab (Some idle)))) = Fin 0"
proof -
  note share = founder_share_without_dilution
    [OF partners_shape(1) partners_shape(2) partners_exit_founderEquity, of exit_input]
  note none = founder_share_without_dilution
    [OF idle_shape(1) idle_shape(2) idle_exit_founderEquity, of exit_input]
  have rows: "map row_founder (founderRows (AnalysisTab (Some partners))) = [carol, dave]"
    using share by (simp add: partners_shape)
  then have ne: "founderRows (AnalysisTab (Some partners)) \<noteq> []"
    by auto
  have "row_founder (hd (founderRows (AnalysisTab (Some partners)))) = carol"
    using rows ne by (simp add: hd_map [symmetric])
  then have first: "FounderRow.currentEquity (hd (founderRows (AnalysisTab (Some partners))))
       = Fin (125 / 2)"
    using share [THEN conjunct2, THEN conjunct1, rule_format, OF hd_in_set [OF ne]]
    by (simp add: carol_equity)
  from share exit_input_accepted obtain r
    where r: "exitResults (calculateExit (Some partners) exit_input) = Some r"
      "map originalEquity (founderBreakdown r) = map equity (founders partners)"
      "\<forall>b \<in> set (founderBreakdown r).
         FounderBreakdown.currentEquity b =
           (if (0::rat) < 80 then jmul (jdiv (originalEquity b) (Fin 80)) (Fin 100)
            else originalEquity b)"
    by blast
  have orig: "map originalEquity (founderBreakdown r) = [Fin 50, Fin 30]"
    using r(2) by (simp add: partners_shape carol_def dave_def)
  then have ne': "founderBreakdown r \<noteq> []"
    by auto
  have "originalEquity (hd (founderBreakdown r)) = Fin 50"
    using orig ne' by (simp add: hd_map [symmetric])
  then have "FounderBreakdown.currentEquity (hd (founderBreakdown r)) = Fin (125 / 2)"
    using r(3) [rule_format, OF hd_in_set [OF ne']] by simp
  with r(1) orig
  have exit: "\<exists>r. exitResults (calculateExit (Some partners) exit_input) = Some r
          \<and> map originalEquity (founderBreakdown r) = [Fin 50, Fin 30]
          \<and> FounderBreakdown.currentEquity (hd (founderBreakdown r)) = Fin (125 / 2)"
    by (intro exI [of _ r] conjI)
  have rows0: "map row_founder (founderRows (AnalysisTab (Some idle))) = [erin]"
    using none by (simp add: idle_shape)
  then have ne0: "founderRows (AnalysisTab (Some idle)) \<noteq> []"
    by auto
  have "row_founder (hd (founderRows (AnalysisTab (Some idle)))) = erin"
    using rows0 ne0 by (simp add: hd_map [symmetric])
  then have zero: "FounderRow.currentEquity (hd (founderRows (AnalysisTab (Some idle)))) = Fin 0"
    using none [THEN conjunct2, THEN conjunct1, rule_format, OF hd_in_set [OF ne0]]
    by (simp add: erin_equity)
  show ?thesis
    using rows first exit rows0 zero
    by (simp add: partners_shape partners_exit_founderEquity exit_input_accepted
        idle_shape idle_exit_founderEquity)
qed

text \<open>
  C5 as stated fails: Carol, the only founder, holds 50 raw units, there is no round and
  no option pool, and her diluted share is 100.
\<close>

theorem founder_share_without_dilution_counterexample:
  "rounds solo = [] \<and> esop solo = [] \<and> founders solo = [carol] \<and> equity carol = Fin 50
   \<and> map FounderRow.currentEquity (founderRows (AnalysisTab (Some solo))) = [Fin 100]"
  by (simp add: solo_shape carol_equity solo_rows)

subsection \<open>The investors' return multiple\<close>

text \<open>
  C6. When the investments of the rounds sum to 0, the exit computation (run on an
  accepted exit valuation) stores a return multiple of 0; the quotient of proceeds and
  total investment is not formed.
\<close>

theorem zero_investment_multiple:
  assumes "exit_totalInvestment d = Fin 0"
    and "jgt (parseFloat (exitValuation st)) (Fin 0)"
  shows "\<exists>r. exitResults (calculateExit (Some d) st) = Some r
             \<and> ExitResults.totalInvestment r = Fin 0 \<and> investorReturn r = Fin 0"
  unfolding calculateExit_results [OF calculateExit_accepts [OF assms(2)]]
  by (simp add: assms(1))

theorem zero_investment_multiple_witness:
  "exit_totalInvestment solo = Fin 0
   \<and> jgt (parseFloat (exitValuation exit_input)) (Fin 0)
   \<and> (\<exists>r. exitResults (calculateExit (Some solo) exit_input) = Some r
          \<and> ExitResults.totalInvestment r = Fin 0 \<and> investorReturn r = Fin 0)"
  using zero_investment_multiple [OF solo_exit_totalInvestment exit_input_accepted]
    solo_exit_totalInvestment exit_input_accepted
  by simp

subsection \<open>When a result is stored\<close>

lemma calculateExit_rejects:
  assumes "\<not> jgt (parseFloat (exitValuation st)) (Fin 0)"
  shows "calculateExit sd st = st"
proof (cases sd)
  case None
  then show ?thesis by (simp add: calculateExit_def)
next
  case (Some d)
  have "isNaN (parseFloat (exitValuation st)) \<or> jle (parseFloat (exitValuation st)) (Fin 0)"
    using assms guards_jgt_zero by blast
  then show ?thesis
    by (simp add: calculateExit_def Some Let_def)
qed

lemma parseFloat_minus_5: "parseFloat ''-5'' = Fin (- 5)"
  by code_simp

lemma parseFloat_ten: "parseFloat ''ten'' = NaN"
  by code_simp

text \<open>
  C7 (as amended). The exit computation stores a result exactly when a scenario is loaded
  and the exit valuation entered parses (by \<open>parseFloat\<close>) to a number greater than 0,
  finite or \<open>Infinity\<close>; the result then carries the parsed valuation. In every other case
  (no scenario, an empty or non-numeric input, zero, a negative number, \<open>-Infinity\<close>) the
  state, and with it the result stored before, is left as it was.
\<close>

theorem calculateExit_guard:
  "(sd \<noteq> None \<and> (parseFloat (exitValuation st) = PInf
        \<or> (\<exists>q. parseFloat (exitValuation st) = Fin q \<and> 0 < q))
      \<longrightarrow> (\<exists>r. calculateExit sd st = st\<lparr> exitResults := Some r \<rparr>
              \<and> ExitResults.exitValuation r = parseFloat (exitValuation st)))
   \<and> (\<not> (sd \<noteq> None \<and> (parseFloat (exitValuation st) = PInf
        \<or> (\<exists>q. parseFloat (exitValuation st) = Fin q \<and> 0 < q)))
      \<longrightarrow> calculateExit sd st = st)"
proof (intro conjI impI)
  assume a: "sd \<noteq> None \<and> (parseFloat (exitValuation st) = PInf
        \<or> (\<exists>q. parseFloat (exitValuation st) = Fin q \<and> 0 < q))"
  then obtain d where d: "sd = Some d" by auto
  from a have acc: "jgt (parseFloat (exitValuation st)) (Fin 0)"
    by (simp add: jgt_zero_iff)
  show "\<exists>r. calculateExit sd st = st\<lparr> exitResults := Some r \<rparr>
              \<and> ExitResults.exitValuation r = parseFloat (exitValuation st)"
    unfolding d calculateExit_results [OF calculateExit_accepts [OF acc]]
    by (rule exI, rule conjI, rule refl, simp)
next
  assume "\<not> (sd \<noteq> None \<and> (parseFloat (exitValuation st) = PInf
        \<or> (\<exists>q. parseFloat (exitValuation st) = Fin q \<and> 0 < q)))"
  then consider "sd = None" | "\<not> jgt (parseFloat (exitValuation st)) (Fin 0)"
    by (auto simp: jgt_zero_iff)
  then show "calculateExit sd st = st"
  proof cases
    case 1
    then show ?thesis by (simp add: calculateExit_def)
  next
    case 2
    then show ?thesis by (rule calculateExit_rejects)
  qed
qed

theorem calculateExit_guard_witness:
  "(\<exists>r. calculateExit (Some example) exit_input = exit_input\<lparr> exitResults := Some r \<rparr>
        \<and> ExitResults.exitValuation r = Fin 10000000)
   \<and> calculateExit (Some example) rejected_exit = rejected_exit
   \<and> calculateExit (Some example) unparsable_exit = unparsable_exit
   \<and> calculateExit None exit_input = exit_input"
  using calculateExit_guard [of "Some example" exit_input]
    calculateExit_guard [of "Some example" rejected_exit]
    calculateExit_guard [of "Some example" unparsable_exit]
    calculateExit_guard [of None exit_input]
  by (simp add: exit_input_valuation rejected_exit_def unparsable_exit_def
      parseFloat_minus_5 parseFloat_ten)

text \<open>
  C7 as stated fails, both ways: the input \<open>Infinity\<close> does not parse to a finite number,
  and a result is stored for it, where none was before; and the input \<open>10000000\<close> parses to
  a finite number greater than 0, and no result is stored for it while no scenario is loaded.
\<close>

theorem calculateExit_guard_counterexample:
  "parseFloat (exitValuation infinite_exit) = PInf \<and> \<not> isFinite PInf
   \<and> exitResults infinite_exit = None
   \<and> map_option ExitResults.exitValuation
        (exitResults (calculateExit (Some example) infinite_exit)) = Some PInf
   \<and> parseFloat (exitValuation exit_input) = Fin 10000000
   \<and> exitResults (calculateExit None exit_input) = None"
proof -
  have "map_option ExitResults.exitValuation
          (exitResults (calculateExit (Some example) infinite_exit)) = Some PInf"
    unfolding calculateExit_results [OF calculateExit_accepts [OF infinite_exit_accepted]]
    by (simp add: infinite_exit_valuation)
  moreover have "exitResults (calculateExit None exit_input) = None"
    by (simp add: calculateExit_def exit_input_def)
  ultimately show ?thesis
    by (simp add: infinite_exit_valuation exit_input_valuation) (simp add: infinite_exit_def)
qed

subsection \<open>Decimal digits\<close>

lemma digitChar_code: "0 \<le> k \<Longrightarrow> k < 10 \<Longrightarrow> (of_char (digitChar k) :: int) = 48 + k"
  by (simp add: digitChar_def of_char_of)

lemma isDigit_digitChar: "0 \<le> k \<Longrightarrow> k < 10 \<Longrightarrow> isDigit (digitChar k)"
  by (simp add: isDigit_def digitChar_code)

lemma digitVal_digitChar: "0 \<le> k \<Longrightarrow> k < 10 \<Longrightarrow> digitVal (digitChar k) = k"
  by (simp add: digitVal_def digitChar_code)

lemma digitsVal_snoc: "digitsVal (ds @ [c]) = 10 * digitsVal ds + digitVal c"
  by (simp add: digitsVal_def)

lemma intToString_nonempty: "intToString n \<noteq> []"
  by (subst intToString.simps) simp

lemma intToString_digits: "0 \<le> n \<Longrightarrow> list_all isDigit (intToString n)"
proof (induction n rule: intToString.induct)
  case (1 n)
  show ?case
  proof (cases "n < 10")
    case True
    with 1(2) show ?thesis
      by (subst intToString.simps) (simp add: isDigit_digitChar)
  next
    case False
    with 1 have "list_all isDigit (intToString (n div 10))" by simp
    moreover have "isDigit (digitChar (n mod 10))"
      by (simp add: isDigit_digitChar)
    ultimately show ?thesis
      using False by (subst intToString.simps) simp
  qed
qed

lemma digitsVal_intToString: "0 \<le> n \<Longrightarrow> digitsVal (intToString n) = n"
proof (induction n rule: intToString.induct)
  case (1 n)
  show ?case
  proof (cases "n < 10")
    case True
    with 1(2) show ?thesis
      by (subst intToString.simps) (simp add: digitsVal_def digitVal_digitChar)
  next
    case False
    with 1 have "digitsVal (intToString (n div 10)) = n div 10" by simp
    then show ?thesis
      using False
      by (subst intToString.simps) (simp add: digitsVal_snoc digitVal_digitChar)
  qed
qed

lemma digitsVal_zeros: "digitsVal (replicate k (CHR ''0'') @ ds) = digitsVal ds"
proof -
  have "foldl (\<lambda>acc c. 10 * acc + digitVal c) 0 (replicate k (CHR ''0'')) = 0"
    by (induction k) (simp_all add: digitVal_def)
  then show ?thesis
    by (simp add: digitsVal_def)
qed

lemma zeros_digits: "list_all isDigit (replicate k (CHR ''0''))"
  by (induction k) (simp_all add: isDigit_def)

subsection \<open>\<open>toFixed\<close> shows its argument with the decimals asked for\<close>

lemma round_half_up:
  fixes x :: rat
  assumes "0 < p"
  shows "\<bar>of_int \<lfloor>x * p + 1 / 2\<rfloor> / p - x\<bar> \<le> 1 / (2 * p)"
proof -
  let ?n = "of_int \<lfloor>x * p + 1 / 2\<rfloor> :: rat"
  have "?n \<le> x * p + 1 / 2" and "x * p + 1 / 2 < ?n + 1"
    by linarith+
  then have le: "\<bar>?n - x * p\<bar> \<le> 1 / 2"
    by linarith
  have "?n / p - x = (?n - x * p) / p"
    using assms by (simp add: diff_divide_distrib)
  then have "\<bar>?n / p - x\<bar> = \<bar>?n - x * p\<bar> / p"
    using assms by simp
  also have "\<dots> \<le> (1 / 2) / p"
    using le assms by (rule_tac divide_right_mono) simp_all
  finally show ?thesis
    by simp
qed

lemma point_split:
  assumes "d < length m" and "d \<noteq> 0"
  shows "shows_unsigned d x (take (length m - d) m @ ''.'' @ drop (length m - d) m)
           \<longleftrightarrow> list_all isDigit m
               \<and> \<bar>of_int (digitsVal m) / 10 ^ d - x\<bar> \<le> 1 / (2 * 10 ^ d)"
proof -
  let ?a = "take (length m - d) m" and ?b = "drop (length m - d) m"
  let ?s = "?a @ ''.'' @ ?b"
  have ip: "take (length ?s - (d + 1)) ?s = ?a"
    using assms by (simp add: min_def)
  have fp: "drop (length ?s - d) ?s = ?b"
    using assms by simp
  have ne: "?a \<noteq> []"
    using assms by auto
  have "shows_unsigned d x ?s \<longleftrightarrow>
          ?a \<noteq> [] \<and> list_all isDigit (?a @ ?b) \<and> length ?b = d
          \<and> \<bar>of_int (digitsVal (?a @ ?b)) / 10 ^ d - x\<bar> \<le> 1 / (2 * 10 ^ d)"
    unfolding shows_unsigned_def Let_def ip fp using assms(2) by simp
  also have "?a @ ?b = m"
    by simp
  finally show ?thesis
    using ne assms(1) by simp
qed

lemma toFixed_unsigned:
  assumes "0 \<le> q" and "q < 10 ^ 21"
  shows "\<exists>s. toFixed (Fin q) d = Some s \<and> shows_unsigned d q s"
proof -
  define n where "n = \<lfloor>q * 10 ^ d + 1 / 2\<rfloor>"
  define m0 where "m0 = intToString n"
  define m where "m = (if length m0 \<le> d then replicate (d + 1 - length m0) (CHR ''0'') @ m0 else m0)"
  have n0: "0 \<le> n"
    using assms(1) by (simp add: n_def)
  have digits: "list_all isDigit m"
    using intToString_digits [OF n0] zeros_digits by (simp add: m_def m0_def)
  have val: "digitsVal m = n"
    using digitsVal_intToString [OF n0] by (simp add: m_def m0_def digitsVal_zeros)
  have near: "\<bar>of_int n / 10 ^ d - q\<bar> \<le> 1 / (2 * 10 ^ d)"
    unfolding n_def by (rule round_half_up) simp
  show ?thesis
  proof (cases "d = 0")
    case True
    have "toFixed (Fin q) d = Some m0"
      using assms True by (simp add: toFixed_def Let_def m0_def n_def)
    moreover have "shows_unsigned d q m0"
      using True near intToString_digits [OF n0] digitsVal_intToString [OF n0]
        intToString_nonempty [of n]
      by (simp add: shows_unsigned_def m0_def)
    ultimately show ?thesis by blast
  next
    case False
    have len: "d < length m"
      by (simp add: m_def)
    have "toFixed (Fin q) d = Some (take (length m - d) m @ ''.'' @ drop (length m - d) m)"
      using assms False by (simp add: toFixed_def Let_def m_def m0_def n_def)
    moreover have "shows_unsigned d q (take (length m - d) m @ ''.'' @ drop (length m - d) m)"
      using point_split [OF len False, of q] digits val near by simp
    ultimately show ?thesis by blast
  qed
qed

lemma toFixed_negative:
  assumes "q < 0"
  shows "toFixed (Fin q) d = map_option ((#) (CHR ''-'')) (toFixed (Fin (- q)) d)"
  using assms by (simp add: toFixed_def Let_def)

lemma toFixed_shows:
  assumes "- (10 ^ 21) < q" and "q < 10 ^ 21"
  shows "\<exists>s. toFixed (Fin q) d = Some s \<and> shows_decimals d q s"
proof (cases "q < 0")
  case True
  then have "0 \<le> - q" and "- q < 10 ^ 21"
    using assms(1) by simp_all
  from toFixed_unsigned [OF this, of d] obtain s
    where "toFixed (Fin (- q)) d = Some s" "shows_unsigned d (- q) s"
    by blast
  then show ?thesis
    using True by (simp add: toFixed_negative shows_decimals_def)
next
  case False
  then have "0 \<le> q" by simp
  from toFixed_unsigned [OF this assms(2), of d] show ?thesis
    using False by (simp add: shows_decimals_def)
qed

lemma renders_template:
  "renders (template pre (Some m) post) pre d x post \<longleftrightarrow> shows_decimals d x m"
  by (simp add: renders_def template_def)

lemma template_toFixed:
  assumes "- (10 ^ 21) < q" and "q < 10 ^ 21"
  shows "renders (template pre (toFixed (Fin q) d) post) pre d q post"
proof -
  from toFixed_shows [OF assms, of d] obtain s
    where "toFixed (Fin q) d = Some s" "shows_decimals d q s"
    by blast
  then show ?thesis
    by (simp add: renders_template)
qed

lemma jge_Fin: "jge (Fin a) (Fin b) \<longleftrightarrow> b \<le> a"
  by (simp add: jge_def)

subsection \<open>The formatters\<close>

lemma exit_1500: "formatCurrency_ExitTab (Fin 1500) = Some ''$1.50K''"
  by code_simp

lemma exit_2500000000: "formatCurrency_ExitTab (Fin 2500000000) = Some ''$2.50B''"
  by code_simp

lemma metrics_2000000000: "formatCurrency_MetricsCards (Fin 2000000000) = Some ''$2000.0M''"
  by code_simp

lemma not_one_decimal: "\<not> renders (Some ''$1.50K'') ''$'' 1 (1500 / 10 ^ 3) ''K''"
  by code_simp

lemma not_billions: "\<not> renders (Some ''$2000.0M'') ''$'' 2 (2000000000 / 10 ^ 9) ''B''"
  by code_simp

text \<open>
  C8 (as amended). For an amount \<open>a\<close> between \<open>-10^21\<close> and \<open>10^27\<close>:
  the formatter of the exit tab renders \<open>a \<ge> 10^9\<close> as \<open>$\<close>, \<open>a / 10^9\<close> with two decimals,
  \<open>B\<close>; \<open>10^6 \<le> a < 10^9\<close> as \<open>$\<close>, \<open>a / 10^6\<close> with two decimals, \<open>M\<close>;
  \<open>10^3 \<le> a < 10^6\<close> as \<open>$\<close>, \<open>a / 10^3\<close> with two decimals, \<open>K\<close>; and \<open>a < 10^3\<close> as
  \<open>$\<close> and \<open>a\<close> with no decimals.
  The formatters of the metrics cards and of the funding tab have no branch for billions:
  they render \<open>a \<ge> 10^6\<close> as \<open>$\<close>, \<open>a / 10^6\<close> with one decimal, \<open>M\<close>, and
  \<open>10^3 \<le> a < 10^6\<close> as \<open>$\<close>, \<open>a / 10^3\<close> with one decimal, \<open>K\<close>; below \<open>10^3\<close> the metrics
  cards show \<open>$\<close> and \<open>a\<close> with one decimal, the funding tab \<open>$\<close> and the locale's rendering.
\<close>

theorem formatCurrency_thresholds:
  fixes a :: rat
  assumes "- (10 ^ 21) < a" and "a < 10 ^ 27"
  shows
    "(10 ^ 9 \<le> a \<longrightarrow> renders (formatCurrency_ExitTab (Fin a)) ''$'' 2 (a / 10 ^ 9) ''B'')
     \<and> (10 ^ 6 \<le> a \<and> a < 10 ^ 9 \<longrightarrow>
          renders (formatCurrency_ExitTab (Fin a)) ''$'' 2 (a / 10 ^ 6) ''M'')
     \<and> (10 ^ 3 \<le> a \<and> a < 10 ^ 6 \<longrightarrow>
          renders (formatCurrency_ExitTab (Fin a)) ''$'' 2 (a / 10 ^ 3) ''K'')
     \<and> (a < 10 ^ 3 \<longrightarrow> renders (formatCurrency_ExitTab (Fin a)) ''$'' 0 a '''')
     \<and> (10 ^ 6 \<le> a \<longrightarrow>
          renders (formatCurrency_MetricsCards (Fin a)) ''$'' 1 (a / 10 ^ 6) ''M'')
     \<and> (10 ^ 3 \<le> a \<and> a < 10 ^ 6 \<longrightarrow>
          renders (formatCurrency_MetricsCards (Fin a)) ''$'' 1 (a / 10 ^ 3) ''K'')
     \<and> (a < 10 ^ 3 \<longrightarrow> renders (formatCurrency_MetricsCards (Fin a)) ''$'' 1 a '''')
     \<and> (10 ^ 6 \<le> a \<longrightarrow>
          renders (formatCurrency_FundingTab toLocaleString (Fin a)) ''$'' 1 (a / 10 ^ 6) ''M'')
     \<and> (10 ^ 3 \<le> a \<and> a < 10 ^ 6 \<longrightarrow>
          renders (formatCurrency_FundingTab toLocaleString (Fin a)) ''$'' 1 (a / 10 ^ 3) ''K'')
     \<and> (a < 10 ^ 3 \<longrightarrow>
          formatCurrency_FundingTab toLocaleString (Fin a) = Some (''$'' @ toLocaleString (Fin a)))"
proof -
  have B: "renders (template ''$'' (toFixed (Fin (a / 1000000000)) 2) ''B'') ''$'' 2
             (a / 1000000000) ''B''" if "10 ^ 9 \<le> a"
    using that assms by (intro template_toFixed) simp_all
  have M: "renders (template ''$'' (toFixed (Fin (a / 1000000)) d) ''M'') ''$'' d
             (a / 1000000) ''M''" if "10 ^ 6 \<le> a" for d
    using that assms by (intro template_toFixed) simp_all
  have K: "renders (template ''$'' (toFixed (Fin (a / 1000)) d) ''K'') ''$'' d
             (a / 1000) ''K''" if "10 ^ 3 \<le> a" and "a < 10 ^ 6" for d
    using that assms by (intro template_toFixed) simp_all
  have U: "renders (template ''$'' (toFixed (Fin a) d) '''') ''$'' d a ''''" if "a < 10 ^ 3" for d
    using that assms by (intro template_toFixed) simp_all
  show ?thesis
    using B M K U
    by (simp add: formatCurrency_ExitTab_def formatCurrency_MetricsCards_def
        formatCurrency_FundingTab_def jge_Fin template_def)
qed

theorem formatCurrency_thresholds_witness:
  "renders (formatCurrency_ExitTab (Fin 1500)) ''$'' 2 (1500 / 10 ^ 3) ''K''
   \<and> formatCurrency_ExitTab (Fin 1500) = Some ''$1.50K''
   \<and> renders (formatCurrency_ExitTab (Fin 2500000000)) ''$'' 2 (2500000000 / 10 ^ 9) ''B''
   \<and> formatCurrency_ExitTab (Fin 2500000000) = Some ''$2.50B''
   \<and> renders (formatCurrency_MetricsCards (Fin 2000000000)) ''$'' 1 (2000000000 / 10 ^ 6) ''M''
   \<and> formatCurrency_MetricsCards (Fin 2000000000) = Some ''$2000.0M''"
  using formatCurrency_thresholds [of 1500] formatCurrency_thresholds [of 2500000000]
    formatCurrency_thresholds [of 2000000000]
  by (simp add: exit_1500 exit_2500000000 metrics_2000000000)

text \<open>
  C8 as stated fails: the exit tab shows thousands with two decimals, not one, and the
  metrics cards show two billions in millions.
\<close>

theorem formatCurrency_thresholds_counterexample:
  "formatCurrency_ExitTab (Fin 1500) = Some ''$1.50K''
   \<and> \<not> renders (formatCurrency_ExitTab (Fin 1500)) ''$'' 1 (1500 / 10 ^ 3) ''K''
   \<and> formatCurrency_MetricsCards (Fin 2000000000) = Some ''$2000.0M''
   \<and> \<not> renders (formatCurrency_MetricsCards (Fin 2000000000)) ''$'' 2 (2000000000 / 10 ^ 9) ''B''"
  using not_one_decimal not_billions
  by (simp add: exit_1500 metrics_2000000000)

section \<open>Properties of the gateway\<close>

lemma checked_None_iff: "checked r = None \<longleftrightarrow> (\<forall>x. r \<noteq> Data x)"
  by (cases r) (simp_all add: checked_def)

lemma checked_Data: "checked (Data x) = Some x"
  by (simp add: checked_def)

lemma createScenario_blocks:
  "createScenario supabase data s =
    (case scenarios_insert_select_single (from_scenarios supabase)
            (CreateScenarioRequest.name data) s of
       (scenarioRes, s1) \<Rightarrow>
         (case checked scenarioRes of
            None \<Rightarrow> (None, s1)
          | Some sc \<Rightarrow>
              (case insert_select (from_founders supabase)
                      (foundersToInsert sc (CreateScenarioRequest.founders data)) s1 of
                 (foundersRes, s2) \<Rightarrow>
                   (case checked foundersRes of
                      None \<Rightarrow> (None, s2)
                    | Some fs \<Rightarrow>
                        (case createRounds supabase sc data s2 of
                           (None, s3) \<Rightarrow> (None, s3)
                         | (Some rs, s3) \<Rightarrow>
                             (case createEsop supabase sc data s3 of
                                (None, s4) \<Rightarrow> (None, s4)
                              | (Some es, s4) \<Rightarrow>
                                  (Some \<lparr> scenario = sc, founders = fs, rounds = rs, esop = es \<rparr>,
                                   s4)))))))"
  by (simp add: createScenario_def createRounds_def createEsop_def foundersToInsert_def
      roundsToInsert_def esopToInsert_def Let_def
      split: prod.splits option.splits)


lemma createScenario_founders_fail:
  assumes "scenarios_insert_select_single (from_scenarios supabase)
             (CreateScenarioRequest.name data) s = (Data sc, s1)"
    and "insert_select (from_founders supabase)
           (foundersToInsert sc (CreateScenarioRequest.founders data)) s1 = (r, s2)"
    and "checked r = None"
  shows "createScenario supabase data s = (None, s2)"
  using assms by (simp add: createScenario_blocks checked_Data)

lemma createScenario_rounds_fail:
  assumes "scenarios_insert_select_single (from_scenarios supabase)
             (CreateScenarioRequest.name data) s = (Data sc, s1)"
    and "insert_select (from_founders supabase)
           (foundersToInsert sc (CreateScenarioRequest.founders data)) s1 = (Data fs, s2)"
    and "createRounds supabase sc data s2 = (None, s3)"
  shows "createScenario supabase data s = (None, s3)"
  using assms by (simp add: createScenario_blocks checked_Data)

lemma createScenario_esop_fails:
  assumes "scenarios_insert_select_single (from_scenarios supabase)
             (CreateScenarioRequest.name data) s = (Data sc, s1)"
    and "insert_select (from_founders supabase)
           (foundersToInsert sc (CreateScenarioRequest.founders data)) s1 = (Data fs, s2)"
    and "createRounds supabase sc data s2 = (Some rs, s3)"
    and "createEsop supabase sc data s3 = (None, s4)"
  shows "createScenario supabase data s = (None, s4)"
  using assms by (simp add: createScenario_blocks checked_Data)

lemma createRounds_fails:
  assumes "CreateScenarioRequest.rounds data = Some rl" and "rl \<noteq> []"
    and "insert_select (from_rounds supabase) (roundsToInsert sc rl) s2 = (r, s3)"
    and "checked r = None"
  shows "createRounds supabase sc data s2 = (None, s3)"
  using assms by (simp add: createRounds_def)

lemma createEsop_fails:
  assumes "CreateScenarioRequest.esop data = Some el" and "el \<noteq> []"
    and "insert_select (from_esop supabase) (esopToInsert sc el) s3 = (r, s4)"
    and "checked r = None"
  shows "createEsop supabase sc data s3 = (None, s4)"
  using assms by (simp add: createEsop_def)

subsection \<open>\<open>createScenario\<close> is not atomic\<close>


lemma founders_down_scenario:
  "scenarios_insert_select_single (from_scenarios memory) (CreateScenarioRequest.name request)
     (store_empty [''founders'']) = (Data stored_acme, store_scenario [''founders''])"
  by code_simp

lemma founders_down_founders:
  "insert_select (from_founders memory)
     (foundersToInsert stored_acme (CreateScenarioRequest.founders request))
     (store_scenario [''founders''])
     = (Error ''unavailable'', store_scenario [''founders''])"
  by code_simp

text \<open>
  C10. When the scenario row has been inserted and a later insert fails (the founders',
  the rounds' or the option pool's), \<open>createScenario\<close> returns \<open>null\<close> and leaves the store
  as the inserts made so far have left it: it sends no query that would undo them.
\<close>

theorem createScenario_not_atomic:
  assumes "scenarios_insert_select_single (from_scenarios supabase)
             (CreateScenarioRequest.name data) s = (Data sc, s1)"
  shows
    "(insert_select (from_founders supabase)
        (foundersToInsert sc (CreateScenarioRequest.founders data)) s1 = (rf, s2)
      \<and> checked rf = None
      \<longrightarrow> createScenario supabase data s = (None, s2))
     \<and> (insert_select (from_founders supabase)
          (foundersToInsert sc (CreateScenarioRequest.founders data)) s1 = (Data fs, s2)
        \<and> CreateScenarioRequest.rounds data = Some rl \<and> rl \<noteq> []
        \<and> insert_select (from_rounds supabase) (roundsToInsert sc rl) s2 = (rr, s3)
        \<and> checked rr = None
        \<longrightarrow> createScenario supabase data s = (None, s3))
     \<and> (insert_select (from_founders supabase)
          (foundersToInsert sc (CreateScenarioRequest.founders data)) s1 = (Data fs, s2)
        \<and> createRounds supabase sc data s2 = (Some rs, s3)
        \<and> CreateScenarioRequest.esop data = Some el \<and> el \<noteq> []
        \<and> insert_select (from_esop supabase) (esopToInsert sc el) s3 = (re, s4)
        \<and> checked re = None
        \<longrightarrow> createScenario supabase data s = (None, s4))"
proof (intro conjI impI; elim conjE)
  assume "insert_select (from_founders supabase)
            (foundersToInsert sc (CreateScenarioRequest.founders data)) s1 = (rf, s2)"
    and "checked rf = None"
  with assms show "createScenario supabase data s = (None, s2)"
    by (rule createScenario_founders_fail)
next
  assume founders: "insert_select (from_founders supabase)
            (foundersToInsert sc (CreateScenarioRequest.founders data)) s1 = (Data fs, s2)"
    and "CreateScenarioRequest.rounds data = Some rl" and "rl \<noteq> []"
    and "insert_select (from_rounds supabase) (roundsToInsert sc rl) s2 = (rr, s3)"
    and "checked rr = None"
  then have "createRounds supabase sc data s2 = (None, s3)"
    by (intro createRounds_fails)
  with assms founders show "createScenario supabase data s = (None, s3)"
    by (rule createScenario_rounds_fail)
next
  assume founders: "insert_select (from_founders supabase)
            (foundersToInsert sc (CreateScenarioRequest.founders data)) s1 = (Data fs, s2)"
    and rounds: "createRounds supabase sc data s2 = (Some rs, s3)"
    and "CreateScenarioRequest.esop data = Some el" and "el \<noteq> []"
    and "insert_select (from_esop supabase) (esopToInsert sc el) s3 = (re, s4)"
    and "checked re = None"
  then have "createEsop supabase sc data s3 = (None, s4)"
    by (intro createEsop_fails)
  with assms founders rounds show "createScenario supabase data s = (None, s4)"
    by (rule createScenario_esop_fails)
qed

theorem createScenario_not_atomic_witness:
  "scenario_rows (store_empty [''founders'']) = []
   \<and> createScenario memory request (store_empty [''founders''])
       = (None, store_scenario [''founders''])
   \<and> scenario_rows (store_scenario [''founders'']) = [stored_acme]"
proof -
  have "checked (Error ''unavailable'' :: Founder list response) = None"
    by (simp add: checked_def)
  with createScenario_not_atomic [OF founders_down_scenario, THEN conjunct1, rule_format,
      OF conjI, OF founders_down_founders]
  have "createScenario memory request (store_empty [''founders''])
          = (None, store_scenario [''founders''])" .
  then show ?thesis
    by (simp add: store_empty_def store_scenario_def)
qed

subsection \<open>Failures are reported, not raised\<close>































end
